theory Spec2Isabelle
  imports Complex_Main "HOL-Library.Sublist"
begin

section \<open>Arrays and tensors\<close>

text \<open>
  The layers of \<^verbatim>\<open>tfn/layers/utility_layers.py\<close> compute on TensorFlow tensors and the
  callbacks of \<^verbatim>\<open>tfn/tools/callbacks.py\<close> on NumPy arrays. Both are modelled by one type:
  a shape (the list of axis lengths) and the element found at each index (one position
  per axis, row-major). Only the elements at the indices inside the shape belong to the
  array. Floating-point elements are taken as real numbers; an operation whose float
  result would be \<^verbatim>\<open>inf\<close> or \<^verbatim>\<open>nan\<close> (a zero denominator, the mean of nothing) is
  written out as a value of its own.
\<close>

datatype 'a tensor = Tensor (shape: "nat list") (elem: "nat list \<Rightarrow> 'a")

datatype py_error =
    ValueError
  | TypeError
  | IndexError
  | ZeroDivisionError
  | InvalidArgumentError
  | DivideByZero

definition rank :: "'a tensor \<Rightarrow> nat" where
  "rank t = length (shape t)"

fun all_indices :: "nat list \<Rightarrow> nat list list" where
  "all_indices [] = [[]]"
| "all_indices (n # ns) = concat (map (\<lambda>i. map ((#) i) (all_indices ns)) [0..<n])"

definition tmap :: "('a \<Rightarrow> 'b) \<Rightarrow> 'a tensor \<Rightarrow> 'b tensor" where
  "tmap f t = Tensor (shape t) (\<lambda>idx. f (elem t idx))"

text \<open>
  Broadcasting of two shapes, as NumPy and TensorFlow do it for every elementwise binary
  operator: the shapes are aligned at their last axis, and two axis lengths go together
  when they are equal or one of them is 1. \<open>broadcast_rev\<close> works on the reversed shapes.
\<close>

fun broadcast_rev :: "nat list \<Rightarrow> nat list \<Rightarrow> nat list option" where
  "broadcast_rev [] ys = Some ys"
| "broadcast_rev (x # xs) [] = Some (x # xs)"
| "broadcast_rev (x # xs) (y # ys) =
     (if x = y \<or> y = 1 then map_option ((#) x) (broadcast_rev xs ys)
      else if x = 1 then map_option ((#) y) (broadcast_rev xs ys)
      else None)"

definition broadcast_shapes :: "nat list \<Rightarrow> nat list \<Rightarrow> nat list option" where
  "broadcast_shapes a b = map_option rev (broadcast_rev (rev a) (rev b))"

text \<open>
  The index at which an operand of shape \<open>shp\<close> is read for the index \<open>idx\<close> of the
  broadcast result: the leading axes the operand lacks are dropped, and an axis of
  length 1 is read at 0.
\<close>

definition broadcast_index :: "nat list \<Rightarrow> nat list \<Rightarrow> nat list" where
  "broadcast_index shp idx =
     map2 (\<lambda>d i. if d = 1 then 0 else i) shp (drop (length idx - length shp) idx)"

definition broadcast_op ::
  "('a \<Rightarrow> 'b \<Rightarrow> 'c) \<Rightarrow> 'a tensor \<Rightarrow> 'b tensor \<Rightarrow> 'c tensor option" where
  "broadcast_op f a b =
     (case broadcast_shapes (shape a) (shape b) of
        None \<Rightarrow> None
      | Some shp \<Rightarrow>
          Some (Tensor shp (\<lambda>idx. f (elem a (broadcast_index (shape a) idx))
                                     (elem b (broadcast_index (shape b) idx)))))"

section \<open>TensorFlow operations used by the layers\<close>

text \<open>
  An axis is an integer; a negative one counts from the last axis. For a tensor with \<open>n\<close>
  axes the axes \<open>-n, ..., n - 1\<close> exist, and TensorFlow raises
  \<^verbatim>\<open>InvalidArgumentError\<close> for every other.
\<close>

definition normalize_axis :: "nat \<Rightarrow> int \<Rightarrow> nat option" where
  "normalize_axis n axis =
     (if - int n \<le> axis \<and> axis < int n
      then Some (nat (if axis < 0 then axis + int n else axis))
      else None)"

text \<open>
  \<^verbatim>\<open>tf.expand_dims(input, axis)\<close> inserts an axis of length 1 at \<open>axis\<close>, which is read
  against the rank of the result.
\<close>

definition expand_dims :: "'a tensor \<Rightarrow> int \<Rightarrow> py_error + 'a tensor" where
  "expand_dims t axis =
     (case normalize_axis (rank t + 1) axis of
        None \<Rightarrow> Inl InvalidArgumentError
      | Some k \<Rightarrow>
          Inr (Tensor (take k (shape t) @ [1] @ drop k (shape t))
                 (\<lambda>idx. elem t (take k idx @ drop (Suc k) idx))))"

text \<open>\<^verbatim>\<open>tf.reduce_sum(input, axis, keepdims)\<close> for one axis.\<close>

definition reduce_sum :: "real tensor \<Rightarrow> int \<Rightarrow> bool \<Rightarrow> py_error + real tensor" where
  "reduce_sum t axis keepdims =
     (case normalize_axis (rank t) axis of
        None \<Rightarrow> Inl InvalidArgumentError
      | Some k \<Rightarrow>
          Inr (Tensor (take k (shape t) @ (if keepdims then [1] else []) @ drop (Suc k) (shape t))
                 (\<lambda>idx. sum_list (map
                           (\<lambda>j. elem t (take k idx @ [j] @
                                         drop (if keepdims then Suc k else k) idx))
                           [0..<shape t ! k]))))"

definition tf_subtract :: "real tensor \<Rightarrow> real tensor \<Rightarrow> py_error + real tensor" where
  "tf_subtract a b =
     (case broadcast_op (-) a b of None \<Rightarrow> Inl InvalidArgumentError | Some t \<Rightarrow> Inr t)"

text \<open>
  The quotient of two float tensors. TensorFlow returns \<^verbatim>\<open>inf\<close> or \<^verbatim>\<open>nan\<close> where the
  denominator is zero; the model returns \<open>DivideByZero\<close> when that happens at some index.
\<close>

definition tf_divide :: "real tensor \<Rightarrow> real tensor \<Rightarrow> py_error + real tensor" where
  "tf_divide a b =
     (case broadcast_op (/) a b of
        None \<Rightarrow> Inl InvalidArgumentError
      | Some t \<Rightarrow>
          if list_ex (\<lambda>idx. elem b (broadcast_index (shape b) idx) = 0)
               (all_indices (shape t))
          then Inl DivideByZero else Inr t)"

definition tf_square :: "real tensor \<Rightarrow> real tensor" where
  "tf_square x = tmap (\<lambda>v. v * v) x"

definition tf_maximum_scalar :: "real tensor \<Rightarrow> real \<Rightarrow> real tensor" where
  "tf_maximum_scalar x c = tmap (\<lambda>v. max v c) x"

definition tf_sqrt :: "real tensor \<Rightarrow> real tensor" where
  "tf_sqrt x = tmap sqrt x"

section \<open>UnitVectors\<close>

text \<open>
  Modelled from the spec: \<^verbatim>\<open>tfn/utils.py\<close>, which defines \<^verbatim>\<open>norm_with_epsilon\<close>, is not
  among the sources, and the specification says of it no more than that the layers
  compute unit vectors. By its name and its use in \<open>UnitVectors.call\<close> (a norm along an
  axis, kept as an axis of length 1 and used as a denominator) it is taken as the
  Euclidean norm guarded by a constant: the square root of the sum of squares along the
  axis, the sum being kept from falling below \<open>epsilon\<close>. The constant is a parameter of
  the model.
\<close>

definition norm_with_epsilon ::
  "real \<Rightarrow> real tensor \<Rightarrow> int \<Rightarrow> bool \<Rightarrow> py_error + real tensor" where
  "norm_with_epsilon epsilon x axis keepdims =
     (case reduce_sum (tf_square x) axis keepdims of
        Inl e \<Rightarrow> Inl e
      | Inr s \<Rightarrow> Inr (tf_sqrt (tf_maximum_scalar s epsilon)))"

record UnitVectors =
  uv_sum_points :: bool

definition UnitVectors_init :: "bool \<Rightarrow> UnitVectors" where
  "UnitVectors_init sum_points = \<lparr>uv_sum_points = sum_points\<rparr>"

definition UnitVectors_call ::
  "real \<Rightarrow> UnitVectors \<Rightarrow> real tensor \<Rightarrow> py_error + real tensor" where
  "UnitVectors_call epsilon self inputs =
     (case (if uv_sum_points self then Inr inputs
            else (case expand_dims inputs (- 2) of
                    Inl e \<Rightarrow> Inl e
                  | Inr i \<Rightarrow>
                      (case expand_dims inputs (- 3) of
                         Inl e \<Rightarrow> Inl e
                       | Inr j \<Rightarrow> tf_subtract i j))) of
        Inl e \<Rightarrow> Inl e
      | Inr v \<Rightarrow>
          (case norm_with_epsilon epsilon v (- 1) True of
             Inl e \<Rightarrow> Inl e
           | Inr den \<Rightarrow> tf_divide v den))"

section \<open>Preprocessing\<close>

text \<open>
  Python values that travel as keyword arguments, and the truth value Python gives them in
  an \<^verbatim>\<open>if\<close>.
\<close>

datatype pyval = PNone | PBool bool | PInt int | PFloat real | PStr string

fun truthy :: "pyval \<Rightarrow> bool" where
  "truthy PNone = False"
| "truthy (PBool b) = b"
| "truthy (PInt i) = (i \<noteq> 0)"
| "truthy (PFloat x) = (x \<noteq> 0)"
| "truthy (PStr s) = (s \<noteq> [])"

text \<open>A dictionary with string keys, in insertion order; \<^verbatim>\<open>d.pop(key, default)\<close>.\<close>

type_synonym 'v dict = "(string \<times> 'v) list"

definition dict_pop :: "'v dict \<Rightarrow> string \<Rightarrow> 'v \<Rightarrow> 'v \<times> 'v dict" where
  "dict_pop d key dflt =
     (case map_of d key of
        None \<Rightarrow> (dflt, d)
      | Some v \<Rightarrow> (v, filter (\<lambda>kv. fst kv \<noteq> key) d))"

text \<open>
  The layers of the \<^verbatim>\<open>atomic_images\<close> package are built by \<open>Preprocessing\<close> and called by
  it; the package is not part of this repository. A layer object is the constructor
  applied to its arguments; what calling a layer returns (a tensor, or an exception) is a
  parameter of the model, and so is the attribute \<^verbatim>\<open>_n_centers\<close> of a basis layer.
\<close>

datatype layer =
    OneHot int
  | CosineBasis "real dict"
  | ShiftedCosineBasis "real dict"
  | GaussianBasis "real dict"
  | CosineCutoff pyval
  | DistanceMatrix

record atomic_images =
  call_one_hot :: "layer \<Rightarrow> int tensor \<Rightarrow> py_error + real tensor"
  call_layer :: "layer \<Rightarrow> real tensor list \<Rightarrow> py_error + real tensor"
  n_centers :: "layer \<Rightarrow> int"

record Preprocessing =
  sum_points :: pyval
  max_z :: int
  basis_config :: "real dict"
  basis_type :: string
  one_hot :: layer
  basis_function :: layer
  cutoff :: layer
  distance_matrix :: layer
  unit_vectors :: UnitVectors

text \<open>
  \<open>Preprocessing.__init__(self, max_z, basis_config=None, basis_type="gaussian", **kwargs)\<close>.
  \<open>Layer_init\<close> stands for the constructor of the Keras base class, which receives the
  keyword arguments left after \<open>sum_points\<close> was taken out and either accepts them
  (\<open>None\<close>) or raises.
\<close>

definition Preprocessing_init ::
  "(pyval dict \<Rightarrow> py_error option) \<Rightarrow> int \<Rightarrow> real dict option \<Rightarrow> string \<Rightarrow> pyval dict \<Rightarrow>
   py_error + Preprocessing" where
  "Preprocessing_init Layer_init max_z_arg basis_config_arg basis_type_arg kwargs =
     (case dict_pop kwargs ''sum_points'' (PBool False) of
        (sum_points_v, kwargs1) \<Rightarrow>
          (case Layer_init kwargs1 of
             Some e \<Rightarrow> Inl e
           | None \<Rightarrow>
               (let config =
                      (case basis_config_arg of
                         None \<Rightarrow>
                           [(''width'', 2 / 10), (''spacing'', 2 / 10),
                            (''min_value'', - 1), (''max_value'', 15)]
                       | Some c \<Rightarrow> c);
                    basis =
                      (if basis_type_arg = ''cosine'' then CosineBasis config
                       else if basis_type_arg = ''shifted_cosine'' then ShiftedCosineBasis config
                       else GaussianBasis config)
                in Inr \<lparr>sum_points = sum_points_v,
                        max_z = max_z_arg,
                        basis_config = config,
                        basis_type = basis_type_arg,
                        one_hot = OneHot max_z_arg,
                        basis_function = basis,
                        cutoff = CosineCutoff (fst (dict_pop kwargs1 ''cutoff'' (PFloat 15))),
                        distance_matrix = DistanceMatrix,
                        unit_vectors = UnitVectors_init (truthy sum_points_v)\<rparr>)))"

definition Preprocessing_call ::
  "atomic_images \<Rightarrow> real \<Rightarrow> Preprocessing \<Rightarrow> real tensor \<times> int tensor \<Rightarrow>
   py_error + real tensor list" where
  "Preprocessing_call ai epsilon self inputs =
     (case inputs of
        (r, z) \<Rightarrow>
          (case call_layer ai (distance_matrix self) [r] of
             Inl e \<Rightarrow> Inl e
           | Inr dist_matrix \<Rightarrow>
          (case call_layer ai (basis_function self) [dist_matrix] of
             Inl e \<Rightarrow> Inl e
           | Inr basis \<Rightarrow>
          (case call_layer ai (cutoff self) [dist_matrix, basis] of
             Inl e \<Rightarrow> Inl e
           | Inr rbf \<Rightarrow>
          (case UnitVectors_call epsilon (unit_vectors self) r of
             Inl e \<Rightarrow> Inl e
           | Inr vectors \<Rightarrow>
          (case (if truthy (sum_points self) then reduce_sum rbf (- 2) False else Inr rbf) of
             Inl e \<Rightarrow> Inl e
           | Inr rbf' \<Rightarrow>
          (case call_one_hot ai (one_hot self) z of
             Inl e \<Rightarrow> Inl e
           | Inr one_hot_z \<Rightarrow> Inr [one_hot_z, rbf', vectors])))))))"

text \<open>
  A static shape: each axis length is known or \<open>None\<close>. \<^verbatim>\<open>tf.TensorShape\<close> refuses a
  negative length.
\<close>

type_synonym static_shape = "int option list"

definition TensorShape :: "int option list \<Rightarrow> py_error + static_shape" where
  "TensorShape dims =
     (if list_ex (\<lambda>d. case d of None \<Rightarrow> False | Some n \<Rightarrow> n < 0) dims
      then Inl ValueError else Inr dims)"

definition compute_output_shape ::
  "atomic_images \<Rightarrow> Preprocessing \<Rightarrow> static_shape list \<Rightarrow> py_error + static_shape list" where
  "compute_output_shape ai self input_shape =
     (case input_shape of
        [r, _] \<Rightarrow>
          (case r of
             [batch, points, _] \<Rightarrow>
               (case TensorShape [batch, points, Some (max_z self)] of
                  Inl e \<Rightarrow> Inl e
                | Inr s0 \<Rightarrow>
               (case TensorShape
                       [batch, points, points, Some (n_centers ai (basis_function self))] of
                  Inl e \<Rightarrow> Inl e
                | Inr s1 \<Rightarrow>
               (case TensorShape [batch, points, points, Some 3] of
                  Inl e \<Rightarrow> Inl e
                | Inr s2 \<Rightarrow> Inr [s0, s1, s2])))
           | _ \<Rightarrow> Inl ValueError)
      | _ \<Rightarrow> Inl ValueError)"

text \<open>
  A static shape agrees with the shape of a tensor when they have as many axes and every
  known length is the tensor's.
\<close>

definition shape_agrees :: "static_shape \<Rightarrow> nat list \<Rightarrow> bool" where
  "shape_agrees s shp =
     list_all2 (\<lambda>d n. case d of None \<Rightarrow> True | Some k \<Rightarrow> k = int n) s shp"

section \<open>NumPy operations used by the callbacks\<close>

definition np_multiply :: "real tensor \<Rightarrow> real tensor \<Rightarrow> py_error + real tensor" where
  "np_multiply a b =
     (case broadcast_op (*) a b of None \<Rightarrow> Inl ValueError | Some t \<Rightarrow> Inr t)"

definition np_subtract :: "real tensor \<Rightarrow> real tensor \<Rightarrow> py_error + real tensor" where
  "np_subtract a b =
     (case broadcast_op (-) a b of None \<Rightarrow> Inl ValueError | Some t \<Rightarrow> Inr t)"

definition np_add :: "real tensor \<Rightarrow> real tensor \<Rightarrow> py_error + real tensor" where
  "np_add a b =
     (case broadcast_op (+) a b of None \<Rightarrow> Inl ValueError | Some t \<Rightarrow> Inr t)"

definition np_clip :: "real tensor \<Rightarrow> real \<Rightarrow> real \<Rightarrow> real tensor" where
  "np_clip a a_min a_max = tmap (\<lambda>x. min a_max (max a_min x)) a"

text \<open>\<^verbatim>\<open>np.round\<close> rounds a half to the even neighbour.\<close>

definition round_half_even :: "real \<Rightarrow> real" where
  "round_half_even x =
     (let f = \<lfloor>x\<rfloor>; d = x - of_int f in
      if d < 1 / 2 then of_int f
      else if 1 / 2 < d then of_int (f + 1)
      else if even f then of_int f else of_int (f + 1))"

definition np_round :: "real tensor \<Rightarrow> real tensor" where
  "np_round a = tmap round_half_even a"

definition np_abs :: "real tensor \<Rightarrow> real tensor" where
  "np_abs a = tmap abs a"

definition np_sum :: "real tensor \<Rightarrow> real" where
  "np_sum a = sum_list (map (elem a) (all_indices (shape a)))"

text \<open>
  The quotient of two NumPy scalars. With a zero denominator NumPy warns and returns
  \<^verbatim>\<open>inf\<close> or \<^verbatim>\<open>nan\<close>; the model returns \<open>DivideByZero\<close> there.
\<close>

definition np_divide :: "real \<Rightarrow> real \<Rightarrow> py_error + real" where
  "np_divide x y = (if y = 0 then Inl DivideByZero else Inr (x / y))"

section \<open>ClassificationMetrics\<close>

definition recall :: "real tensor \<Rightarrow> real tensor \<Rightarrow> py_error + real" where
  "recall y_true y_pred =
     (case np_multiply y_true y_pred of
        Inl e \<Rightarrow> Inl e
      | Inr yy \<Rightarrow>
          (let true_positives = np_sum (np_round (np_clip yy 0 1));
               possible_positives = np_sum (np_round (np_clip y_true 0 1))
           in np_divide true_positives (possible_positives + 1 / 10 ^ 7)))"

definition precision :: "real tensor \<Rightarrow> real tensor \<Rightarrow> py_error + real" where
  "precision y_true y_pred =
     (case np_multiply y_true y_pred of
        Inl e \<Rightarrow> Inl e
      | Inr yy \<Rightarrow>
          (let true_positives = np_sum (np_round (np_clip yy 0 1));
               predicted_positives = np_sum (np_round (np_clip y_pred 0 1))
           in np_divide true_positives (predicted_positives + 1 / 10 ^ 7)))"

definition f1_score :: "real tensor \<Rightarrow> real tensor \<Rightarrow> py_error + real" where
  "f1_score y_true y_pred =
     (case recall y_true y_pred of
        Inl e \<Rightarrow> Inl e
      | Inr recall_v \<Rightarrow>
          (case precision y_true y_pred of
             Inl e \<Rightarrow> Inl e
           | Inr precision_v \<Rightarrow>
               (case np_divide (precision_v * recall_v)
                       (precision_v + recall_v + 1 / 10 ^ 7) of
                  Inl e \<Rightarrow> Inl e
                | Inr q \<Rightarrow> Inr (2 * q))))"

section \<open>WriteCartesians\<close>

text \<open>
  The callback reads arrays, asks the Keras model for predictions and writes files. The
  model under training is a parameter: \<open>model_predict\<close> is \<^verbatim>\<open>self.model.predict\<close> and
  \<open>vectors_predict\<close> the prediction of the two-output model that \<open>get_vectors\<close> builds from
  the layers \<^verbatim>\<open>averaged_midpoint\<close> and \<^verbatim>\<open>ts_vectors\<close>. Every call that writes (\<^verbatim>\<open>os.makedirs\<close>,
  \<^verbatim>\<open>np.savetxt\<close>, \<^verbatim>\<open>ndarrays_to_xyz\<close>, \<^verbatim>\<open>tf.summary.scalar\<close>, \<^verbatim>\<open>print\<close>) is recorded as an event
  with its arguments, in the order of the calls; a function of the callback returns the
  events it caused and the exception that ended it, if any. \<open>SaveTxt\<close> and \<open>WriteXyz\<close> are
  the files written with their content; \<open>OpenFile\<close> is a file that was opened for writing
  and left empty. \<^verbatim>\<open>ndarrays_to_xyz\<close> of \<^verbatim>\<open>tfn/tools/converters.py\<close> is not among the
  sources: a call of it is the event \<open>WriteXyz\<close> with its four arguments, and the file
  system is taken to accept every directory and file it is asked for.
\<close>

type_synonym ndarray = "real tensor"

type_synonym path = "string list"

datatype npfloat = Float real | NaN

datatype comment =
    MaeComment npfloat
  | PredComment npfloat real real

datatype event =
    MakeDirs path
  | OpenFile path
  | SaveTxt path ndarray
  | WriteXyz ndarray ndarray path comment
  | SummaryScalar string npfloat int
  | Print string npfloat

record keras_model =
  model_predict :: "ndarray list \<Rightarrow> ndarray"
  vectors_predict :: "ndarray list \<Rightarrow> ndarray \<times> ndarray"

text \<open>The data of the callback, \<^verbatim>\<open>[[z, r, p], [ts]]\<close>.\<close>

type_synonym data = "(ndarray \<times> ndarray \<times> ndarray) \<times> ndarray"

record WriteCartesians =
  path :: path
  validation :: "data option"
  test :: "data option"
  max_structures :: int
  write_rate :: int

subsection \<open>NumPy and Python operations of the callback\<close>

text \<open>\<^verbatim>\<open>str(n)\<close> for an integer.\<close>

function str_nat :: "nat \<Rightarrow> string" where
  "str_nat n =
     (if n < 10 then [''0123456789'' ! n]
      else str_nat (n div 10) @ [''0123456789'' ! (n mod 10)])"
  by pat_completeness auto

termination
  by (relation "measure id") auto

declare str_nat.simps [simp del]

definition str_int :: "int \<Rightarrow> string" where
  "str_int i = (if i < 0 then ''-'' @ str_nat (nat (- i)) else str_nat (nat i))"

text \<open>\<^verbatim>\<open>a[:stop]\<close> on the first axis; an array without axes cannot be indexed.\<close>

definition slice_to :: "ndarray \<Rightarrow> int \<Rightarrow> py_error + ndarray" where
  "slice_to a stop =
     (case shape a of
        [] \<Rightarrow> Inl IndexError
      | n # rest \<Rightarrow>
          Inr (Tensor ((if stop < 0 then nat (max 0 (int n + stop)) else min n (nat stop)) # rest)
                 (elem a)))"

text \<open>Iterating over an array yields its sub-arrays along the first axis.\<close>

definition iter_array :: "ndarray \<Rightarrow> py_error + ndarray list" where
  "iter_array a =
     (case shape a of
        [] \<Rightarrow> Inl TypeError
      | n # rest \<Rightarrow> Inr (map (\<lambda>i. Tensor rest (\<lambda>idx. elem a (i # idx))) [0..<n]))"

definition np_expand_dims :: "ndarray \<Rightarrow> int \<Rightarrow> py_error + ndarray" where
  "np_expand_dims a axis =
     (case expand_dims a axis of Inl e \<Rightarrow> Inl ValueError | Inr t \<Rightarrow> Inr t)"

definition np_squeeze0 :: "ndarray \<Rightarrow> py_error + ndarray" where
  "np_squeeze0 a =
     (case shape a of
        [] \<Rightarrow> Inl ValueError
      | n # rest \<Rightarrow>
          if n = 1 then Inr (Tensor rest (\<lambda>idx. elem a (0 # idx))) else Inl ValueError)"

definition elements :: "'a tensor \<Rightarrow> 'a list" where
  "elements a = map (elem a) (all_indices (shape a))"

text \<open>\<^verbatim>\<open>np.mean\<close> of an array without elements is \<^verbatim>\<open>nan\<close>.\<close>

definition np_mean :: "ndarray \<Rightarrow> npfloat" where
  "np_mean a =
     (if elements a = [] then NaN
      else Float (sum_list (elements a) / real (length (elements a))))"

text \<open>\<^verbatim>\<open>np.max\<close> and \<^verbatim>\<open>np.min\<close> raise on an array without elements.\<close>

definition np_max :: "ndarray \<Rightarrow> py_error + real" where
  "np_max a =
     (case elements a of [] \<Rightarrow> Inl ValueError | x # xs \<Rightarrow> Inr (fold max xs x))"

definition np_min :: "ndarray \<Rightarrow> py_error + real" where
  "np_min a =
     (case elements a of [] \<Rightarrow> Inl ValueError | x # xs \<Rightarrow> Inr (fold min xs x))"

text \<open>
  \<^verbatim>\<open>np.savetxt(fname, X)\<close> opens the file for writing and then looks at the array: it
  writes an array of one or two axes and raises \<^verbatim>\<open>ValueError\<close> for every other.
\<close>

definition np_savetxt :: "path \<Rightarrow> ndarray \<Rightarrow> event list \<times> py_error option" where
  "np_savetxt fname X =
     (if rank X = 0 \<or> 2 < rank X then ([OpenFile fname], Some ValueError)
      else ([SaveTxt fname X], None))"

fun map_result :: "('a \<Rightarrow> py_error + 'b) \<Rightarrow> 'a list \<Rightarrow> py_error + 'b list" where
  "map_result f [] = Inr []"
| "map_result f (x # xs) =
     (case f x of
        Inl e \<Rightarrow> Inl e
      | Inr y \<Rightarrow> (case map_result f xs of Inl e \<Rightarrow> Inl e | Inr ys \<Rightarrow> Inr (y # ys)))"

subsection \<open>The methods\<close>

definition get_vectors :: "keras_model \<Rightarrow> ndarray list \<Rightarrow> py_error + ndarray \<times> ndarray" where
  "get_vectors m inputs =
     (case map_result (\<lambda>a. np_expand_dims a 0) inputs of
        Inl e \<Rightarrow> Inl e
      | Inr batch \<Rightarrow>
          (case vectors_predict m batch of
             (midpoint, vectors) \<Rightarrow>
               (case np_squeeze0 midpoint of
                  Inl e \<Rightarrow> Inl e
                | Inr mid \<Rightarrow>
                    (case np_squeeze0 vectors of
                       Inl e \<Rightarrow> Inl e
                     | Inr vec \<Rightarrow> Inr (mid, vec)))))"

text \<open>
  \<open>_unwrap_data_lazily\<close>: the items \<open>(i, z, r, p, ts_true, ts_pred)\<close> the generator yields.
  Nothing is written while the five slices are taken and zipped.
\<close>

type_synonym item = "nat \<times> ndarray \<times> ndarray \<times> ndarray \<times> ndarray \<times> ndarray"

definition unwrap_data_lazily ::
  "keras_model \<Rightarrow> WriteCartesians \<Rightarrow> data \<Rightarrow> py_error + item list" where
  "unwrap_data_lazily m self d =
     (case d of
        ((atomic_nums, reactants, products), true_transition_states) \<Rightarrow>
          (let predicted_transition_states = model_predict m [atomic_nums, reactants, products]
           in case map_result (\<lambda>a. case slice_to a (max_structures self) of
                                       Inl e \<Rightarrow> Inl e
                                     | Inr s \<Rightarrow> iter_array s)
                     [atomic_nums, reactants, products, true_transition_states,
                      predicted_transition_states] of
                Inl e \<Rightarrow> Inl e
              | Inr [zs, rs, ps, ts, preds] \<Rightarrow>
                  Inr (zip [0..<length zs] (zip zs (zip rs (zip ps (zip ts preds)))))
              | Inr _ \<Rightarrow> Inl ValueError))"

definition mae :: "ndarray \<Rightarrow> ndarray \<Rightarrow> py_error + npfloat" where
  "mae x y =
     (case np_subtract x y of Inl e \<Rightarrow> Inl e | Inr d \<Rightarrow> Inr (np_mean (np_abs d)))"

text \<open>
  The body of the loop of \<open>write_cartesians\<close> for one item. The arguments of a call are
  evaluated before the call, so an exception in a message leaves the file unwritten, and
  an exception of \<^verbatim>\<open>np.savetxt\<close> ends the item before any \<^verbatim>\<open>.xyz\<close> file.
\<close>

definition write_structure ::
  "keras_model \<Rightarrow> path \<Rightarrow> item \<Rightarrow> event list \<times> py_error option" where
  "write_structure m base it =
     (case it of
        (i, z, r, p, ts, pred) \<Rightarrow>
     (case get_vectors m [z, r, p] of
        Inl e \<Rightarrow> ([], Some e)
      | Inr (mid, vectors) \<Rightarrow>
     (let vector_path = base @ [''vectors'']
      in
     (case np_savetxt (vector_path @ [str_nat i @ ''_vectors.txt'']) vectors of
        (saved, Some e) \<Rightarrow> (MakeDirs vector_path # saved, Some e)
      | (saved, None) \<Rightarrow>
     (let ev1 = MakeDirs vector_path # saved
      in
     (case mae pred ts of
        Inl e \<Rightarrow> (ev1, Some e)
      | Inr pred_mae \<Rightarrow>
     (case np_max vectors of
        Inl e \<Rightarrow> (ev1, Some e)
      | Inr largest \<Rightarrow>
     (case np_min vectors of
        Inl e \<Rightarrow> (ev1, Some e)
      | Inr smallest \<Rightarrow>
     (case mae ts ts of
        Inl e \<Rightarrow> (ev1, Some e)
      | Inr true_mae \<Rightarrow>
     (let ev2 = ev1 @
            [WriteXyz ts z (base @ [''true'', str_nat i @ ''_true.xyz'']) (MaeComment true_mae),
             WriteXyz pred z (base @ [''predicted'', str_nat i @ ''_pred.xyz''])
               (PredComment pred_mae largest smallest)]
      in
     (case mae mid ts of
        Inl e \<Rightarrow> (ev2, Some e)
      | Inr mid_mae \<Rightarrow>
     (let ev3 = ev2 @
            [WriteXyz mid z (base @ [''midpoints'', str_nat i @ ''_midpoint.xyz''])
               (MaeComment mid_mae)]
      in
     (case mae r ts of
        Inl e \<Rightarrow> (ev3, Some e)
      | Inr r_mae \<Rightarrow>
     (let ev4 = ev3 @
            [WriteXyz r z (base @ [''reactants'', str_nat i @ ''_reactant.xyz''])
               (MaeComment r_mae)]
      in
     (case mae p ts of
        Inl e \<Rightarrow> (ev4, Some e)
      | Inr p_mae \<Rightarrow>
          (ev4 @ [WriteXyz p z (base @ [''products'', str_nat i @ ''_product.xyz''])
                    (MaeComment p_mae)],
           None))))))))))))))))"

fun write_loop :: "keras_model \<Rightarrow> path \<Rightarrow> item list \<Rightarrow> event list \<times> py_error option" where
  "write_loop m base [] = ([], None)"
| "write_loop m base (it # its) =
     (case write_structure m base it of
        (ev, Some e) \<Rightarrow> (ev, Some e)
      | (ev, None) \<Rightarrow> (case write_loop m base its of (ev', res) \<Rightarrow> (ev @ ev', res)))"

definition write_cartesians ::
  "keras_model \<Rightarrow> WriteCartesians \<Rightarrow> data \<Rightarrow> path \<Rightarrow> event list \<times> py_error option" where
  "write_cartesians m self d base =
     (case unwrap_data_lazily m self d of
        Inl e \<Rightarrow> ([], Some e)
      | Inr items \<Rightarrow> write_loop m base items)"

definition midpoint_loss :: "ndarray \<Rightarrow> ndarray \<Rightarrow> ndarray \<Rightarrow> py_error + npfloat" where
  "midpoint_loss r p ts =
     (case np_add r p of
        Inl e \<Rightarrow> Inl e
      | Inr s \<Rightarrow> mae (tmap (\<lambda>x. x / 2) s) ts)"

definition on_epoch_end ::
  "keras_model \<Rightarrow> WriteCartesians \<Rightarrow> int \<Rightarrow> event list \<times> py_error option" where
  "on_epoch_end m self epoch =
     (case validation self of
        None \<Rightarrow> ([], None)
      | Some v \<Rightarrow>
          if write_rate self = 0 then ([], Some ZeroDivisionError)
          else if epoch mod write_rate self = 0 then
            (case v of
               ((z, r, p), ts) \<Rightarrow>
                 (case midpoint_loss r p ts of
                    Inl e \<Rightarrow> ([], Some e)
                  | Inr loss \<Rightarrow>
                      (case write_cartesians m self v
                              (path self @ [''epoch_'' @ str_int epoch]) of
                         (ev, res) \<Rightarrow>
                           (SummaryScalar ''val_midpoint_loss'' loss epoch # ev, res))))
          else ([], None))"

definition on_train_end ::
  "keras_model \<Rightarrow> WriteCartesians \<Rightarrow> event list \<times> py_error option" where
  "on_train_end m self =
     (case test self of
        None \<Rightarrow> ([], None)
      | Some t \<Rightarrow>
          (case validation self of
             None \<Rightarrow> ([], Some TypeError)
           | Some ((z, r, p), ts) \<Rightarrow>
               (case midpoint_loss r p ts of
                  Inl e \<Rightarrow> ([], Some e)
                | Inr loss \<Rightarrow>
                    (case write_cartesians m self t (path self @ [''test'']) of
                       (ev, res) \<Rightarrow> (Print ''midpoint test loss: '' loss # ev, res)))))"

text \<open>
  The files of one exported structure, in the order \<open>write_cartesians\<close> writes them, and
  the files a list of events has written.
\<close>

definition structure_files :: "path \<Rightarrow> nat \<Rightarrow> path list" where
  "structure_files base i =
     [base @ [''vectors'', str_nat i @ ''_vectors.txt''],
      base @ [''true'', str_nat i @ ''_true.xyz''],
      base @ [''predicted'', str_nat i @ ''_pred.xyz''],
      base @ [''midpoints'', str_nat i @ ''_midpoint.xyz''],
      base @ [''reactants'', str_nat i @ ''_reactant.xyz''],
      base @ [''products'', str_nat i @ ''_product.xyz'']]"

fun written_files :: "event list \<Rightarrow> path list" where
  "written_files [] = []"
| "written_files (SaveTxt f a # es) = f # written_files es"
| "written_files (WriteXyz c z f msg # es) = f # written_files es"
| "written_files (e # es) = written_files es"

text \<open>\<^verbatim>\<open>a[k]\<close>, the sub-array at position \<open>k\<close> of the first axis.\<close>

definition entry :: "ndarray \<Rightarrow> nat \<Rightarrow> ndarray" where
  "entry a k = Tensor (tl (shape a)) (\<lambda>idx. elem a (k # idx))"

text \<open>The length of the first axis of an array, 0 for an array without axes.\<close>

definition first_axis :: "ndarray \<Rightarrow> nat" where
  "first_axis a = (case shape a of [] \<Rightarrow> 0 | n # rest \<Rightarrow> n)"

section \<open>Experiment scripts\<close>

text \<open>
  An experiment script is the value it builds and the calls it makes on it. The job
  classes of \<^verbatim>\<open>tfn.tools.jobs\<close> are not among the sources, so a job object is its class
  name with the positional and keyword arguments of its constructor, and the one method
  the scripts call on a job, \<^verbatim>\<open>run()\<close>, is an action. A script is a function of its own
  location \<^verbatim>\<open>__file__\<close>, given as the parts of a POSIX path, which two of the scripts read.
\<close>

datatype pyobj =
    VStr string
  | VInt int
  | VFloat real
  | VBool bool
  | VDict "(string \<times> pyobj) list"
  | VList "pyobj list"
  | VTuple "pyobj list"
  | VObj string "pyobj list" "(string \<times> pyobj) list"










text \<open>
  A plain value holds no object. A job object is an object of one of the six job classes
  whose constructor arguments are plain dictionaries or lists of job objects.
\<close>

fun plain :: "pyobj \<Rightarrow> bool" where
  "plain (VDict kvs) = list_all plain (map snd kvs)"
| "plain (VList xs) = list_all plain xs"
| "plain (VTuple xs) = list_all plain xs"
| "plain (VObj cls args kwargs) = False"
| "plain v = True"

definition job_classes :: "string list" where
  "job_classes = [''Classification'', ''SingleModel'', ''StructurePrediction'', ''Pipeline'',
                  ''CrossValidate'', ''Regression'']"

fun job_object :: "pyobj \<Rightarrow> bool" and job_argument :: "pyobj \<Rightarrow> bool" where
  "job_object (VObj cls args kwargs) =
     (cls \<in> set job_classes \<and> list_all job_argument args \<and>
      list_all job_argument (map snd kwargs))"
| "job_object v = False"
| "job_argument (VDict kvs) = plain (VDict kvs)"
| "job_argument (VList xs) = list_all job_object xs"
| "job_argument v = False"

section \<open>Example inputs\<close>

text \<open>
  Concrete inputs on which the theorems below are applied: two points of the plane, a
  stand-in for the layers of \<^verbatim>\<open>atomic_images\<close> with a layer built with \<open>sum_points\<close> and its
  inputs, an array of zeros, labels with predictions for four samples, and a Keras model
  with data of two structures and a callback that exports one of them; then the same callback with a negative \<open>max_structures\<close>, a
  model whose vectors have one axis too many, and the first structure of the data.
\<close>

definition two_points :: "real tensor" where
  "two_points = Tensor [2, 2] (\<lambda>idx. if idx = [0, 0] then 3 else if idx = [0, 1] then 4 else 0)"

definition ai0 :: atomic_images where
  "ai0 = \<lparr>call_one_hot = (\<lambda>l z. Inr (Tensor [1, 2, 3] (\<lambda>idx. 0))),
          call_layer = (\<lambda>l xs. Inr (Tensor [1, 2, 2, 1] (\<lambda>idx. 1))),
          n_centers = (\<lambda>l. 1)\<rparr>"

definition layer0 :: Preprocessing where
  "layer0 = \<lparr>sum_points = PBool True, max_z = 3,
     basis_config = [(''width'', 2 / 10), (''spacing'', 2 / 10),
                              (''min_value'', - 1), (''max_value'', 15)],
     basis_type = ''gaussian'', one_hot = OneHot 3,
     basis_function = GaussianBasis [(''width'', 2 / 10), (''spacing'', 2 / 10),
                              (''min_value'', - 1), (''max_value'', 15)],
     cutoff = CosineCutoff (PFloat 15), distance_matrix = DistanceMatrix,
     unit_vectors = UnitVectors_init True\<rparr>"

definition r0 :: "real tensor" where
  "r0 = Tensor [1, 2, 3] (\<lambda>idx. 0)"

definition z0 :: "int tensor" where
  "z0 = Tensor [1, 2] (\<lambda>idx. 1)"

definition zeros3 :: "real tensor" where
  "zeros3 = Tensor [3] (\<lambda>idx. 0)"

definition y_true4 :: "real tensor" where
  "y_true4 = Tensor [4] (\<lambda>idx. if idx = [0] \<or> idx = [1] then 1 else 0)"

definition y_pred4 :: "real tensor" where
  "y_pred4 = Tensor [4] (\<lambda>idx. if idx = [0] then 9 / 10 else if idx = [1] then 4 / 10
                               else if idx = [2] then 7 / 10 else 2 / 10)"

definition m0 :: keras_model where
  "m0 = \<lparr>model_predict = (\<lambda>xs. Tensor [2, 1, 3] (\<lambda>idx. 0)),
          vectors_predict = (\<lambda>xs. (Tensor [1, 1, 3] (\<lambda>idx. 0), Tensor [1, 1, 3] (\<lambda>idx. 1)))\<rparr>"

definition d_val :: data where
  "d_val = ((Tensor [2, 1] (\<lambda>idx. 1), Tensor [2, 1, 3] (\<lambda>idx. 1), Tensor [2, 1, 3] (\<lambda>idx. 3)),
            Tensor [2, 1, 3] (\<lambda>idx. 0))"

definition d_test :: data where
  "d_test = ((Tensor [2, 1] (\<lambda>idx. 1), Tensor [2, 1, 3] (\<lambda>idx. 0), Tensor [2, 1, 3] (\<lambda>idx. 0)),
            Tensor [2, 1, 3] (\<lambda>idx. 0))"

definition cb0 :: WriteCartesians where
  "cb0 = \<lparr>path = [''out''], validation = Some d_val, test = Some d_test,
           max_structures = 1, write_rate = 100\<rparr>"

definition cb_negative :: WriteCartesians where
  "cb_negative = cb0\<lparr>max_structures := - 1\<rparr>"

definition m_deep :: keras_model where
  "m_deep = \<lparr>model_predict = (\<lambda>xs. Tensor [2, 1, 3] (\<lambda>idx. 0)),
             vectors_predict =
               (\<lambda>xs. (Tensor [1, 1, 3] (\<lambda>idx. 0), Tensor [1, 1, 1, 3] (\<lambda>idx. 1)))\<rparr>"

definition first_structure :: "item list" where
  "first_structure =
     [(0, Tensor [1] (\<lambda>idx. 1), Tensor [1, 3] (\<lambda>idx. 1), Tensor [1, 3] (\<lambda>idx. 3),
       Tensor [1, 3] (\<lambda>idx. 0), Tensor [1, 3] (\<lambda>idx. 0))]"

section \<open>Properties of UnitVectors\<close>

lemma broadcast_rev_same: "broadcast_rev xs xs = Some xs"
  by (induction xs) auto

lemma broadcast_shapes_same: "broadcast_shapes s s = Some s"
  by (simp add: broadcast_shapes_def broadcast_rev_same)

lemma broadcast_shapes_pairwise:
  "broadcast_shapes (pre @ [n, 1, d]) (pre @ [1, n, d]) = Some (pre @ [n, n, d])"
  by (auto simp: broadcast_shapes_def broadcast_rev_same)

lemma broadcast_shapes_keepdims:
  "broadcast_shapes (pre @ [d]) (pre @ [1]) = Some (pre @ [d])"
  by (auto simp: broadcast_shapes_def broadcast_rev_same)

lemma map2_valid_prefix:
  "list_all2 (<) bs (pre :: nat list) \<Longrightarrow> map2 (\<lambda>d i. if d = 1 then 0 else i) pre bs = bs"
  by (induction bs pre rule: list_all2_induct) auto

lemma broadcast_index_append:
  "length bs = length pre \<Longrightarrow> length xs = length ys \<Longrightarrow>
   broadcast_index (pre @ ys) (bs @ xs) =
     map2 (\<lambda>d i. if d = 1 then 0 else i) pre bs @ map2 (\<lambda>d i. if d = 1 then 0 else i) ys xs"
  by (simp add: broadcast_index_def)

lemma broadcast_index_valid:
  "list_all2 (<) bs (pre :: nat list) \<Longrightarrow> length xs = length ys \<Longrightarrow>
   broadcast_index (pre @ ys) (bs @ xs) = bs @ map2 (\<lambda>d i. if d = 1 then 0 else i) ys xs"
  by (simp only: broadcast_index_append [OF list_all2_lengthD] map2_valid_prefix)

lemma normalize_axis_minus1: "normalize_axis (Suc m) (- 1) = Some m"
  by (auto simp: normalize_axis_def nat_eq_iff)

lemma normalize_axis_minus2: "normalize_axis (Suc (Suc m)) (- 2) = Some m"
  by (auto simp: normalize_axis_def nat_eq_iff)

lemma normalize_axis_minus3: "normalize_axis (Suc (Suc (Suc m))) (- 3) = Some m"
  by (auto simp: normalize_axis_def nat_eq_iff)

lemma norm_with_epsilon_last:
  "shape x = pre @ [d] \<Longrightarrow>
   norm_with_epsilon epsilon x (- 1) True =
     Inr (Tensor (pre @ [1])
       (\<lambda>idx. sqrt (max (sum_list (map (\<lambda>j. elem x (take (length pre) idx @ [j] @ drop (Suc (length pre)) idx)
                                          * elem x (take (length pre) idx @ [j] @ drop (Suc (length pre)) idx)) [0..<d])) epsilon)))"
  by (simp add: normalize_axis_minus1 norm_with_epsilon_def reduce_sum_def rank_def tf_square_def tmap_def
      tf_sqrt_def tf_maximum_scalar_def nth_append)

lemma norm_with_epsilon_pos:
  "0 < epsilon \<Longrightarrow> norm_with_epsilon epsilon x axis keepdims = Inr den \<Longrightarrow> 0 < elem den idx"
  by (auto simp: norm_with_epsilon_def tf_sqrt_def tf_maximum_scalar_def tmap_def
      split: sum.splits)

lemma tf_divide_positive:
  "broadcast_shapes (shape a) (shape b) = Some shp \<Longrightarrow> (\<And>idx. 0 < elem b idx) \<Longrightarrow>
   tf_divide a b = Inr (Tensor shp (\<lambda>idx. elem a (broadcast_index (shape a) idx) /
                                           elem b (broadcast_index (shape b) idx)))"
  by (auto simp: tf_divide_def broadcast_op_def list_ex_iff less_imp_neq [THEN not_sym])

lemma expand_dims_minus2:
  "shape r = pre @ [n, d] \<Longrightarrow>
   expand_dims r (- 2) =
     Inr (Tensor (pre @ [n, 1, d])
            (\<lambda>idx. elem r (take (Suc (length pre)) idx @ drop (Suc (Suc (length pre))) idx)))"
  by (simp add: expand_dims_def rank_def normalize_axis_minus2 normalize_axis_minus3)

lemma expand_dims_minus3:
  "shape r = pre @ [n, d] \<Longrightarrow>
   expand_dims r (- 3) =
     Inr (Tensor (pre @ [1, n, d])
            (\<lambda>idx. elem r (take (length pre) idx @ drop (Suc (length pre)) idx)))"
  by (simp add: expand_dims_def rank_def normalize_axis_minus2 normalize_axis_minus3)

lemma UnitVectors_pairwise:
  assumes eps: "0 < epsilon" and shp: "shape r = pre @ [n, d]"
    and self: "\<not> uv_sum_points self"
  shows "\<exists>t. UnitVectors_call epsilon self r = Inr t \<and> shape t = pre @ [n, n, d] \<and>
    (\<forall>bs i j c. list_all2 (<) bs pre \<longrightarrow> i < n \<longrightarrow> j < n \<longrightarrow> c < d \<longrightarrow>
       elem t (bs @ [i, j, c]) =
         (elem r (bs @ [i, c]) - elem r (bs @ [j, c])) /
         sqrt (max (\<Sum>k\<leftarrow>[0..<d]. (elem r (bs @ [i, k]) - elem r (bs @ [j, k])) *
                                   (elem r (bs @ [i, k]) - elem r (bs @ [j, k]))) epsilon))"
proof -
  define ti where "ti = Tensor (pre @ [n, 1, d])
            (\<lambda>idx. elem r (take (Suc (length pre)) idx @ drop (Suc (Suc (length pre))) idx))"
  define tj where "tj = Tensor (pre @ [1, n, d])
            (\<lambda>idx. elem r (take (length pre) idx @ drop (Suc (length pre)) idx))"
  define v where "v = Tensor (pre @ [n, n, d])
     (\<lambda>idx. elem ti (broadcast_index (shape ti) idx) - elem tj (broadcast_index (shape tj) idx))"
  have i: "expand_dims r (- 2) = Inr ti"
    unfolding ti_def by (rule expand_dims_minus2 [OF shp])
  have j: "expand_dims r (- 3) = Inr tj"
    unfolding tj_def by (rule expand_dims_minus3 [OF shp])
  have bsh: "broadcast_shapes (shape ti) (shape tj) = Some (pre @ [n, n, d])"
    unfolding ti_def tj_def tensor.sel by (rule broadcast_shapes_pairwise)
  have sub: "tf_subtract ti tj = Inr v"
    by (simp add: tf_subtract_def broadcast_op_def v_def bsh)
  have vshape: "shape v = (pre @ [n, n]) @ [d]"
    by (simp add: v_def)
  obtain den where den: "norm_with_epsilon epsilon v (- 1) True = Inr den"
    and den_def: "den = Tensor ((pre @ [n, n]) @ [1])
       (\<lambda>idx. sqrt (max (sum_list (map (\<lambda>j. elem v (take (length (pre @ [n, n])) idx @ [j] @ drop (Suc (length (pre @ [n, n]))) idx)
                                          * elem v (take (length (pre @ [n, n])) idx @ [j] @ drop (Suc (length (pre @ [n, n]))) idx)) [0..<d])) epsilon))"
    using norm_with_epsilon_last [OF vshape] by blast
  have pos: "\<And>idx. 0 < elem den idx"
    using norm_with_epsilon_pos [OF eps den] .
  have bs: "broadcast_shapes (shape v) (shape den) = Some (pre @ [n, n, d])"
    using broadcast_shapes_keepdims [of "pre @ [n, n]" d] by (simp add: v_def den_def)
  define t where "t = Tensor (pre @ [n, n, d]) (\<lambda>idx. elem v (broadcast_index (shape v) idx) /
                                           elem den (broadcast_index (shape den) idx))"
  have call: "UnitVectors_call epsilon self r = Inr t"
    using self by (simp add: UnitVectors_call_def i j sub den tf_divide_positive [OF bs pos] t_def)
  have velem: "elem v (bs @ [a, b, c]) = elem r (bs @ [a, c]) - elem r (bs @ [b, c])"
    if "list_all2 (<) bs pre" "a < n" "b < n" "c < d" for bs a b c
  proof -
    have l: "length bs = length pre" using that(1) by (rule list_all2_lengthD)
    have 1: "broadcast_index (pre @ [n, 1, d]) (bs @ [a, b, c]) = bs @ [a, 0, c]"
      using that by (simp add: broadcast_index_valid)
    have 2: "broadcast_index (pre @ [1, n, d]) (bs @ [a, b, c]) = bs @ [0, b, c]"
      using that by (simp add: broadcast_index_valid)
    show ?thesis
      using 1 2 l by (simp add: v_def ti_def tj_def)
  qed
  have telem: "elem t (bs @ [a, b, c]) =
         (elem r (bs @ [a, c]) - elem r (bs @ [b, c])) /
         sqrt (max (\<Sum>k\<leftarrow>[0..<d]. (elem r (bs @ [a, k]) - elem r (bs @ [b, k])) *
                                   (elem r (bs @ [a, k]) - elem r (bs @ [b, k]))) epsilon)"
    if h: "list_all2 (<) bs pre" "a < n" "b < n" "c < d" for bs a b c
  proof -
    have l: "length bs = length pre" using h(1) by (rule list_all2_lengthD)
    have 1: "broadcast_index (shape v) (bs @ [a, b, c]) = bs @ [a, b, c]"
      using h broadcast_index_valid [of bs pre "[a, b, c]" "[n, n, d]"] by (auto simp: v_def)
    have 2: "broadcast_index (shape den) (bs @ [a, b, c]) = bs @ [a, b, 0]"
      using h broadcast_index_valid [of bs pre "[a, b, c]" "[n, n, 1]"] by (auto simp: den_def)
    have 3: "elem den (bs @ [a, b, 0]) =
       sqrt (max (\<Sum>k\<leftarrow>[0..<d]. elem v (bs @ [a, b, k]) * elem v (bs @ [a, b, k])) epsilon)"
      by (simp add: den_def l)
    have 4: "(\<Sum>k\<leftarrow>[0..<d]. elem v (bs @ [a, b, k]) * elem v (bs @ [a, b, k])) =
      (\<Sum>k\<leftarrow>[0..<d]. (elem r (bs @ [a, k]) - elem r (bs @ [b, k])) *
                                   (elem r (bs @ [a, k]) - elem r (bs @ [b, k])))"
      by (rule arg_cong [where f = sum_list], rule map_cong) (simp_all add: velem h)
    show ?thesis
      using 1 2 3 4 by (simp add: t_def velem h)
  qed
  show ?thesis
    using call telem by (intro exI [of _ t]) (simp add: t_def)
qed

lemma UnitVectors_own_norm:
  assumes eps: "0 < epsilon" and shp: "shape r = pre @ [d]"
    and self: "uv_sum_points self"
  shows "\<exists>t. UnitVectors_call epsilon self r = Inr t \<and> shape t = pre @ [d] \<and>
    (\<forall>bs c. list_all2 (<) bs pre \<longrightarrow> c < d \<longrightarrow>
       elem t (bs @ [c]) =
         elem r (bs @ [c]) /
         sqrt (max (\<Sum>k\<leftarrow>[0..<d]. elem r (bs @ [k]) * elem r (bs @ [k])) epsilon))"
proof -
  obtain den where den: "norm_with_epsilon epsilon r (- 1) True = Inr den"
    and den_def: "den = Tensor (pre @ [1])
       (\<lambda>idx. sqrt (max (sum_list (map (\<lambda>j. elem r (take (length pre) idx @ [j] @ drop (Suc (length pre)) idx)
                                          * elem r (take (length pre) idx @ [j] @ drop (Suc (length pre)) idx)) [0..<d])) epsilon))"
    using norm_with_epsilon_last [OF shp] by blast
  have pos: "\<And>idx. 0 < elem den idx"
    using norm_with_epsilon_pos [OF eps den] .
  have bs: "broadcast_shapes (shape r) (shape den) = Some (pre @ [d])"
    using broadcast_shapes_keepdims [of pre d] by (simp add: shp den_def)
  define t where "t = Tensor (pre @ [d]) (\<lambda>idx. elem r (broadcast_index (shape r) idx) /
                                           elem den (broadcast_index (shape den) idx))"
  have call: "UnitVectors_call epsilon self r = Inr t"
    using self by (simp add: UnitVectors_call_def den tf_divide_positive [OF bs pos] t_def)
  have telem: "elem t (bs @ [c]) =
         elem r (bs @ [c]) /
         sqrt (max (\<Sum>k\<leftarrow>[0..<d]. elem r (bs @ [k]) * elem r (bs @ [k])) epsilon)"
    if h: "list_all2 (<) bs pre" "c < d" for bs c
  proof -
    have l: "length bs = length pre" using h(1) by (rule list_all2_lengthD)
    have 1: "broadcast_index (shape r) (bs @ [c]) = bs @ [c]"
      using h broadcast_index_valid [of bs pre "[c]" "[d]"] by (auto simp: shp)
    have 2: "broadcast_index (shape den) (bs @ [c]) = bs @ [0]"
      using h broadcast_index_valid [of bs pre "[c]" "[1]"] by (auto simp: den_def)
    have 3: "elem den (bs @ [0]) =
       sqrt (max (\<Sum>k\<leftarrow>[0..<d]. elem r (bs @ [k]) * elem r (bs @ [k])) epsilon)"
      by (simp add: den_def l)
    show ?thesis
      using 1 2 3 by (simp add: t_def)
  qed
  show ?thesis
    using call telem by (intro exI [of _ t]) (simp add: t_def)
qed

lemma tf_divide_never_zero:
  "(\<And>idx. 0 < elem b idx) \<Longrightarrow> tf_divide a b \<noteq> Inl DivideByZero"
  by (auto simp: tf_divide_def list_ex_iff less_imp_neq [THEN not_sym] split: option.splits)

lemma UnitVectors_never_zero:
  assumes "0 < epsilon"
  shows "UnitVectors_call epsilon self r \<noteq> Inl DivideByZero"
proof -
  have nd: "expand_dims x a \<noteq> Inl DivideByZero" for x :: "real tensor" and a
    by (simp add: expand_dims_def split: option.splits)
  have ns: "tf_subtract x y \<noteq> Inl DivideByZero" for x y
    by (simp add: tf_subtract_def split: option.splits)
  have nn: "norm_with_epsilon epsilon x a k \<noteq> Inl DivideByZero" for x a k
    by (simp add: norm_with_epsilon_def reduce_sum_def split: option.splits)
  have dv: "norm_with_epsilon epsilon v (- 1) True = Inr den \<Longrightarrow>
      tf_divide v den \<noteq> Inl DivideByZero" for v den
    using norm_with_epsilon_pos [OF assms] tf_divide_never_zero by blast
  show ?thesis
    using nd ns nn dv
    by (auto simp: UnitVectors_call_def split: sum.splits if_splits)
qed

text \<open>
  C2. With \<open>sum_points = False\<close> and an input of shape \<open>(..., n, d)\<close>, \<open>UnitVectors.call\<close>
  returns the tensor of shape \<open>(..., n, n, d)\<close> whose entry \<open>(i, j)\<close> is \<open>r\<^sub>i - r\<^sub>j\<close> divided
  by the epsilon-guarded norm of \<open>r\<^sub>i - r\<^sub>j\<close> along the last axis; with \<open>sum_points = True\<close>
  it returns the input divided by its own guarded norm along the last axis. The guarded
  norm is strictly positive, so the division never meets a zero denominator, and the
  entries \<open>(i, i)\<close> of coincident points are the zero vector.
\<close>

theorem UnitVectors_call_unit_vectors:
  assumes "0 < epsilon"
  shows "(\<not> uv_sum_points self \<longrightarrow> shape r = pre @ [n, d] \<longrightarrow>
      (\<exists>t. UnitVectors_call epsilon self r = Inr t \<and> shape t = pre @ [n, n, d] \<and>
        (\<forall>bs i j c. list_all2 (<) bs pre \<longrightarrow> i < n \<longrightarrow> j < n \<longrightarrow> c < d \<longrightarrow>
           0 < sqrt (max (\<Sum>k\<leftarrow>[0..<d]. (elem r (bs @ [i, k]) - elem r (bs @ [j, k])) *
                                   (elem r (bs @ [i, k]) - elem r (bs @ [j, k]))) epsilon) \<and>
           elem t (bs @ [i, j, c]) =
             (elem r (bs @ [i, c]) - elem r (bs @ [j, c])) /
             sqrt (max (\<Sum>k\<leftarrow>[0..<d]. (elem r (bs @ [i, k]) - elem r (bs @ [j, k])) *
                                   (elem r (bs @ [i, k]) - elem r (bs @ [j, k]))) epsilon) \<and>
           elem t (bs @ [i, i, c]) = 0))) \<and>
    (uv_sum_points self \<longrightarrow> shape r = pre @ [d] \<longrightarrow>
      (\<exists>t. UnitVectors_call epsilon self r = Inr t \<and> shape t = pre @ [d] \<and>
        (\<forall>bs c. list_all2 (<) bs pre \<longrightarrow> c < d \<longrightarrow>
           0 < sqrt (max (\<Sum>k\<leftarrow>[0..<d]. elem r (bs @ [k]) * elem r (bs @ [k])) epsilon) \<and>
           elem t (bs @ [c]) =
             elem r (bs @ [c]) /
             sqrt (max (\<Sum>k\<leftarrow>[0..<d]. elem r (bs @ [k]) * elem r (bs @ [k])) epsilon)))) \<and>
    UnitVectors_call epsilon self r \<noteq> Inl DivideByZero"
proof -
  have pos: "0 < sqrt (max x epsilon)" for x
    using assms by simp
  have a: "\<exists>t. UnitVectors_call epsilon self r = Inr t \<and> shape t = pre @ [n, n, d] \<and>
        (\<forall>bs i j c. list_all2 (<) bs pre \<longrightarrow> i < n \<longrightarrow> j < n \<longrightarrow> c < d \<longrightarrow>
           0 < sqrt (max (\<Sum>k\<leftarrow>[0..<d]. (elem r (bs @ [i, k]) - elem r (bs @ [j, k])) *
                                   (elem r (bs @ [i, k]) - elem r (bs @ [j, k]))) epsilon) \<and>
           elem t (bs @ [i, j, c]) =
             (elem r (bs @ [i, c]) - elem r (bs @ [j, c])) /
             sqrt (max (\<Sum>k\<leftarrow>[0..<d]. (elem r (bs @ [i, k]) - elem r (bs @ [j, k])) *
                                   (elem r (bs @ [i, k]) - elem r (bs @ [j, k]))) epsilon) \<and>
           elem t (bs @ [i, i, c]) = 0)"
    if "\<not> uv_sum_points self" "shape r = pre @ [n, d]"
  proof -
    from UnitVectors_pairwise [OF assms that(2) that(1)]
    obtain t where t: "UnitVectors_call epsilon self r = Inr t" "shape t = pre @ [n, n, d]"
      and e: "\<And>bs i j c. list_all2 (<) bs pre \<Longrightarrow> i < n \<Longrightarrow> j < n \<Longrightarrow> c < d \<Longrightarrow>
       elem t (bs @ [i, j, c]) =
         (elem r (bs @ [i, c]) - elem r (bs @ [j, c])) /
         sqrt (max (\<Sum>k\<leftarrow>[0..<d]. (elem r (bs @ [i, k]) - elem r (bs @ [j, k])) *
                                   (elem r (bs @ [i, k]) - elem r (bs @ [j, k]))) epsilon)"
      by blast
    have "elem t (bs @ [i, i, c]) = 0" if "list_all2 (<) bs pre" "i < n" "c < d" for bs i c
      using e [OF that(1) that(2) that(2) that(3)] by simp
    with t e pos show ?thesis by blast
  qed
  have b: "\<exists>t. UnitVectors_call epsilon self r = Inr t \<and> shape t = pre @ [d] \<and>
        (\<forall>bs c. list_all2 (<) bs pre \<longrightarrow> c < d \<longrightarrow>
           0 < sqrt (max (\<Sum>k\<leftarrow>[0..<d]. elem r (bs @ [k]) * elem r (bs @ [k])) epsilon) \<and>
           elem t (bs @ [c]) =
             elem r (bs @ [c]) /
             sqrt (max (\<Sum>k\<leftarrow>[0..<d]. elem r (bs @ [k]) * elem r (bs @ [k])) epsilon))"
    if "uv_sum_points self" "shape r = pre @ [d]"
    using UnitVectors_own_norm [OF assms that(2) that(1)] pos by blast
  show ?thesis
    using a b UnitVectors_never_zero [OF assms] by blast
qed

theorem UnitVectors_call_unit_vectors_witness:
  "(0::real) < 1 / 10 ^ 8 \<and> shape two_points = [] @ [2, 2] \<and>
   (\<exists>t. UnitVectors_call (1 / 10 ^ 8) (UnitVectors_init False) two_points = Inr t \<and>
      shape t = [2, 2, 2] \<and> elem t [0, 1, 0] = 3 / 5 \<and> elem t [0, 1, 1] = 4 / 5 \<and>
      elem t [1, 0, 0] = - (3 / 5) \<and> elem t [0, 0, 0] = 0) \<and>
   (\<exists>t. UnitVectors_call (1 / 10 ^ 8) (UnitVectors_init True) two_points = Inr t \<and>
      shape t = [2, 2] \<and> elem t [0, 0] = 3 / 5 \<and> elem t [1, 0] = 0)"
proof -
  have eps: "(0::real) < 1 / 10 ^ 8" by simp
  have shp: "shape two_points = [] @ [2, 2]" by (simp add: two_points_def)
  have shp1: "shape two_points = [2] @ [2]" by (simp add: two_points_def)
  have sq: "sqrt 25 = 5"
    using real_sqrt_abs [of 5] by simp
  note th = UnitVectors_call_unit_vectors [OF eps, of "UnitVectors_init False" two_points "[]" 2 2]
  from th shp obtain t where t: "UnitVectors_call (1 / 10 ^ 8) (UnitVectors_init False) two_points = Inr t"
    "shape t = [] @ [2, 2, 2]"
    and e: "\<And>bs i j c. list_all2 (<) bs [] \<Longrightarrow> i < 2 \<Longrightarrow> j < 2 \<Longrightarrow> c < 2 \<Longrightarrow>
           elem t (bs @ [i, j, c]) =
             (elem two_points (bs @ [i, c]) - elem two_points (bs @ [j, c])) /
             sqrt (max (\<Sum>k\<leftarrow>[0..<2]. (elem two_points (bs @ [i, k]) - elem two_points (bs @ [j, k])) *
                                   (elem two_points (bs @ [i, k]) - elem two_points (bs @ [j, k]))) (1 / 10 ^ 8)) \<and>
           elem t (bs @ [i, i, c]) = 0"
    by (auto simp: UnitVectors_init_def)
  have u: "[0..<2] = [0, Suc 0]" by (simp add: upt_rec)
  have e1: "elem t [0, 1, 0] = 3 / 5" "elem t [0, 1, 1] = 4 / 5" "elem t [1, 0, 0] = - (3 / 5)"
    "elem t [0, 0, 0] = 0"
    using e [of "[]" 0 1 0] e [of "[]" 0 1 1] e [of "[]" 1 0 0] e [of "[]" 0 0 0]
    by (simp_all add: two_points_def u sq)
  note th2 = UnitVectors_call_unit_vectors [OF eps, of "UnitVectors_init True" two_points "[2]" _ 2]
  from th2 shp1 obtain t' where t': "UnitVectors_call (1 / 10 ^ 8) (UnitVectors_init True) two_points = Inr t'"
    "shape t' = [2] @ [2]"
    and e': "\<And>bs c. list_all2 (<) bs [2] \<Longrightarrow> c < 2 \<Longrightarrow>
           elem t' (bs @ [c]) =
             elem two_points (bs @ [c]) /
             sqrt (max (\<Sum>k\<leftarrow>[0..<2]. elem two_points (bs @ [k]) * elem two_points (bs @ [k])) (1 / 10 ^ 8))"
    by (auto simp: UnitVectors_init_def)
  have e2: "elem t' [0, 0] = 3 / 5" "elem t' [1, 0] = 0"
    using e' [of "[0]" 0] e' [of "[1]" 0]
    by (simp_all add: two_points_def u sq)
  show ?thesis
    using eps shp t e1 t' e2 by auto
qed

section \<open>Properties of Preprocessing\<close>

lemma Preprocessing_init_cases:
  "Preprocessing_init Layer_init mz cfg bt kwargs =
     (case Layer_init (snd (dict_pop kwargs ''sum_points'' (PBool False))) of
        Some e \<Rightarrow> Inl e
      | None \<Rightarrow>
          Inr \<lparr>sum_points = fst (dict_pop kwargs ''sum_points'' (PBool False)),
               max_z = mz,
               basis_config =
                 (case cfg of
                    None \<Rightarrow> [(''width'', 2 / 10), (''spacing'', 2 / 10),
                              (''min_value'', - 1), (''max_value'', 15)]
                  | Some c \<Rightarrow> c),
               basis_type = bt,
               one_hot = OneHot mz,
               basis_function =
                 (if bt = ''cosine'' then CosineBasis
                  else if bt = ''shifted_cosine'' then ShiftedCosineBasis
                  else GaussianBasis)
                   (case cfg of
                      None \<Rightarrow> [(''width'', 2 / 10), (''spacing'', 2 / 10),
                                (''min_value'', - 1), (''max_value'', 15)]
                    | Some c \<Rightarrow> c),
               cutoff = CosineCutoff (fst (dict_pop (snd (dict_pop kwargs ''sum_points'' (PBool False)))
                          ''cutoff'' (PFloat 15))),
               distance_matrix = DistanceMatrix,
               unit_vectors = UnitVectors_init
                 (truthy (fst (dict_pop kwargs ''sum_points'' (PBool False))))\<rparr>)"
  by (simp add: Preprocessing_init_def Let_def split: prod.splits option.splits)

text \<open>
  C3. Whenever the base class accepts the keyword arguments, \<open>Preprocessing.__init__\<close>
  builds \<open>CosineBasis\<close> exactly when \<open>basis_type\<close> is \<^verbatim>\<open>"cosine"\<close>, \<open>ShiftedCosineBasis\<close>
  exactly when it is \<^verbatim>\<open>"shifted_cosine"\<close> and \<open>GaussianBasis\<close> for every other value, each
  from the stored \<open>basis_config\<close>; a \<open>basis_config\<close> of \<open>None\<close> is replaced by the dictionary
  width 0.2, spacing 0.2, min_value -1.0, max_value 15.0.
\<close>

theorem Preprocessing_init_basis:
  "(case Layer_init (snd (dict_pop kwargs ''sum_points'' (PBool False))) of
      Some e \<Rightarrow> Preprocessing_init Layer_init mz cfg bt kwargs = Inl e
    | None \<Rightarrow>
        (\<exists>self. Preprocessing_init Layer_init mz cfg bt kwargs = Inr self \<and>
           basis_config self =
             (case cfg of
                None \<Rightarrow> [(''width'', 2 / 10), (''spacing'', 2 / 10),
                          (''min_value'', - 1), (''max_value'', 15)]
              | Some c \<Rightarrow> c) \<and>
           basis_type self = bt \<and>
           ((basis_function self = CosineBasis (basis_config self)) = (bt = ''cosine'')) \<and>
           ((basis_function self = ShiftedCosineBasis (basis_config self)) =
              (bt = ''shifted_cosine'')) \<and>
           ((basis_function self = GaussianBasis (basis_config self)) =
              (bt \<noteq> ''cosine'' \<and> bt \<noteq> ''shifted_cosine''))))"
  by (simp add: Preprocessing_init_cases split: option.splits)

theorem Preprocessing_init_basis_witness:
  "(\<exists>self. Preprocessing_init (\<lambda>kw. None) 5 None ''cosine'' [] = Inr self \<and>
      basis_function self =
        CosineBasis [(''width'', 2 / 10), (''spacing'', 2 / 10), (''min_value'', - 1),
                     (''max_value'', 15)]) \<and>
   (\<exists>self. Preprocessing_init (\<lambda>kw. None) 5 None ''gaussian'' [] = Inr self \<and>
      basis_function self =
        GaussianBasis [(''width'', 2 / 10), (''spacing'', 2 / 10), (''min_value'', - 1),
                       (''max_value'', 15)]) \<and>
   (\<exists>self. Preprocessing_init (\<lambda>kw. None) 5 (Some [(''width'', 1)]) ''shifted_cosine'' [] =
        Inr self \<and>
      basis_function self = ShiftedCosineBasis [(''width'', 1)])"
  using Preprocessing_init_basis [where Layer_init = "\<lambda>kw. None" and kwargs = "[]" and mz = 5
      and cfg = None and bt = "''cosine''"]
    Preprocessing_init_basis [where Layer_init = "\<lambda>kw. None" and kwargs = "[]" and mz = 5
      and cfg = None and bt = "''gaussian''"]
    Preprocessing_init_basis [where Layer_init = "\<lambda>kw. None" and kwargs = "[]" and mz = 5
      and cfg = "Some [(''width'', 1)]" and bt = "''shifted_cosine''"]
  by auto

lemma reduce_sum_minus2:
  "shape x = pre @ [n, k] \<Longrightarrow>
   reduce_sum x (- 2) False =
     Inr (Tensor (pre @ [k])
       (\<lambda>idx. \<Sum>j\<leftarrow>[0..<n]. elem x (take (length pre) idx @ [j] @ drop (length pre) idx)))"
  by (simp add: reduce_sum_def rank_def normalize_axis_minus2 nth_append)

lemma two_last_axes:
  "2 \<le> length xs \<Longrightarrow> \<exists>pre n k. xs = pre @ [n, k]"
proof (cases xs rule: rev_cases)
  case Nil
  assume "2 \<le> length xs"
  with Nil show ?thesis by simp
next
  case (snoc ys k)
  assume len: "2 \<le> length xs"
  show ?thesis
  proof (cases ys rule: rev_cases)
    case Nil
    with snoc len show ?thesis by simp
  next
    case (snoc pre n)
    with \<open>xs = ys @ [k]\<close> have "xs = pre @ [n, k]" by simp
    then show ?thesis by blast
  qed
qed

lemma reduce_sum_minus2_rank:
  "reduce_sum x (- 2) False = Inr y \<Longrightarrow> \<exists>pre n k. shape x = pre @ [n, k]"
proof -
  assume a: "reduce_sum x (- 2) False = Inr y"
  then have "2 \<le> length (shape x)"
    by (auto simp: reduce_sum_def rank_def normalize_axis_def split: option.splits if_splits)
  then show ?thesis by (rule two_last_axes)
qed

lemma init_fields:
  assumes "Preprocessing_init Layer_init mz cfg bt kwargs = Inr self"
  shows "one_hot self = OneHot mz" "distance_matrix self = DistanceMatrix"
    "unit_vectors self = UnitVectors_init (truthy (sum_points self))"
    "sum_points self = fst (dict_pop kwargs ''sum_points'' (PBool False))"
    "max_z self = mz"
    "basis_function self =
       (if bt = ''cosine'' then CosineBasis
        else if bt = ''shifted_cosine'' then ShiftedCosineBasis
        else GaussianBasis) (basis_config self)"
    "\<exists>c. cutoff self = CosineCutoff c"
  using assms by (auto simp: Preprocessing_init_cases split: option.splits)

text \<open>
  C1. For a layer built by \<open>__init__\<close> and an input pair \<open>(r, z)\<close>, \<open>Preprocessing.call\<close>
  returns a list exactly when every layer it calls returns, and the list then holds three
  tensors in this order: the one-hot encoding of \<open>z\<close> with depth \<open>max_z\<close>, the cutoff applied
  to the distance matrix of \<open>r\<close> and its basis expansion, and the unit vectors of \<open>r\<close>. When
  the layer was built with a true \<open>sum_points\<close>, the second tensor is the basis image summed
  over its second-to-last axis.
\<close>

theorem Preprocessing_call_outputs:
  assumes init: "Preprocessing_init Layer_init mz cfg bt kwargs = Inr self"
  shows "Preprocessing_call ai epsilon self (r, z) = Inr outs \<longleftrightarrow>
    (\<exists>dist_matrix basis rbf one_hot_z image vectors.
       outs = [one_hot_z, image, vectors] \<and>
       call_one_hot ai (OneHot mz) z = Inr one_hot_z \<and>
       call_layer ai DistanceMatrix [r] = Inr dist_matrix \<and>
       call_layer ai (basis_function self) [dist_matrix] = Inr basis \<and>
       call_layer ai (cutoff self) [dist_matrix, basis] = Inr rbf \<and>
       UnitVectors_call epsilon (UnitVectors_init (truthy (sum_points self))) r = Inr vectors \<and>
       (if truthy (sum_points self)
        then reduce_sum rbf (- 2) False = Inr image \<and>
             (\<exists>pre n k. shape rbf = pre @ [n, k] \<and> shape image = pre @ [k] \<and>
                (\<forall>bs c. length bs = length pre \<longrightarrow>
                   elem image (bs @ [c]) = (\<Sum>j\<leftarrow>[0..<n]. elem rbf (bs @ [j, c]))))
        else image = rbf))"
    (is "?L \<longleftrightarrow> ?R")
proof
  assume ?L
  then obtain dist_matrix basis rbf vectors image one_hot_z where
    d: "call_layer ai DistanceMatrix [r] = Inr dist_matrix"
    and b: "call_layer ai (basis_function self) [dist_matrix] = Inr basis"
    and c: "call_layer ai (cutoff self) [dist_matrix, basis] = Inr rbf"
    and v: "UnitVectors_call epsilon (UnitVectors_init (truthy (sum_points self))) r = Inr vectors"
    and i: "(if truthy (sum_points self) then reduce_sum rbf (- 2) False else Inr rbf) = Inr image"
    and z: "call_one_hot ai (OneHot mz) z = Inr one_hot_z"
    and outs: "outs = [one_hot_z, image, vectors]"
    unfolding Preprocessing_call_def init_fields(1-3) [OF init]
    by (auto split: sum.splits)
  have "\<exists>pre n k. shape rbf = pre @ [n, k] \<and> shape image = pre @ [k] \<and>
                (\<forall>bs c. length bs = length pre \<longrightarrow>
                   elem image (bs @ [c]) = (\<Sum>j\<leftarrow>[0..<n]. elem rbf (bs @ [j, c])))"
    if t: "truthy (sum_points self)"
  proof -
    from i t have rs: "reduce_sum rbf (- 2) False = Inr image" by simp
    from reduce_sum_minus2_rank [OF rs] obtain pre n k where s: "shape rbf = pre @ [n, k]"
      by blast
    from rs reduce_sum_minus2 [OF s] have
      "image = Tensor (pre @ [k])
        (\<lambda>idx. \<Sum>j\<leftarrow>[0..<n]. elem rbf (take (length pre) idx @ [j] @ drop (length pre) idx))"
      by simp
    with s show ?thesis by auto
  qed
  with d b c v i z outs show ?R
    by (auto split: if_splits)
next
  assume ?R
  then show ?L
    unfolding Preprocessing_call_def init_fields(1-3) [OF init]
    by (auto split: if_splits)
qed

text \<open>
  C10. Let the layers of \<^verbatim>\<open>atomic_images\<close> produce a basis image of shape
  \<open>(batch, points, points, k)\<close> with \<open>k\<close> the number of centers. Then
  \<open>compute_output_shape\<close> reports a second output with the four axes
  \<open>(batch, points, points, k)\<close>, while the second output of \<open>call\<close> has the shape
  \<open>(batch, points, k)\<close> of rank 3 when \<open>sum_points\<close> is true and the reported shape
  otherwise: the two agree exactly when \<open>sum_points\<close> is false.
\<close>

theorem compute_output_shape_rank:
  assumes init: "Preprocessing_init Layer_init mz cfg bt kwargs = Inr self"
    and call: "Preprocessing_call ai epsilon self (r, z) = Inr outs"
    and d: "call_layer ai DistanceMatrix [r] = Inr dist_matrix"
    and b: "call_layer ai (basis_function self) [dist_matrix] = Inr basis"
    and c: "call_layer ai (cutoff self) [dist_matrix, basis] = Inr rbf"
    and rbf: "shape rbf = [batch, points, points, k]"
    and nc: "n_centers ai (basis_function self) = int k"
    and mz: "0 \<le> mz"
    and bd: "bd = None \<or> bd = Some (int batch)"
    and pd: "pd = None \<or> pd = Some (int points)"
  shows "\<exists>s0 s1 s2.
     compute_output_shape ai self [[bd, pd, d3], z_shape] = Inr [s0, s1, s2] \<and>
     s1 = [bd, pd, pd, Some (int k)] \<and> length s1 = 4 \<and>
     shape (outs ! 1) =
       (if truthy (sum_points self) then [batch, points, k] else [batch, points, points, k]) \<and>
     rank (outs ! 1) = (if truthy (sum_points self) then 3 else 4) \<and>
     (shape_agrees s1 (shape (outs ! 1)) \<longleftrightarrow> \<not> truthy (sum_points self))"
proof -
  have nn: "\<not> (case bd of None \<Rightarrow> False | Some n \<Rightarrow> n < 0)"
    "\<not> (case pd of None \<Rightarrow> False | Some n \<Rightarrow> n < 0)"
    using bd pd by auto
  have cos: "compute_output_shape ai self [[bd, pd, d3], z_shape] =
      Inr [[bd, pd, Some mz], [bd, pd, pd, Some (int k)], [bd, pd, pd, Some 3]]"
    using nn mz by (simp add: compute_output_shape_def TensorShape_def nc init_fields(5) [OF init])
  obtain image vectors one_hot_z where
    i: "(if truthy (sum_points self) then reduce_sum rbf (- 2) False else Inr rbf) = Inr image"
    and outs: "outs = [one_hot_z, image, vectors]"
    using call unfolding Preprocessing_call_def init_fields(2) [OF init]
    by (auto simp: d b c split: sum.splits)
  have s: "shape rbf = [batch, points] @ [points, k]"
    using rbf by simp
  have shp: "shape image =
      (if truthy (sum_points self) then [batch, points, k] else [batch, points, points, k])"
    using i reduce_sum_minus2 [OF s] rbf by (auto split: if_splits)
  have ag: "shape_agrees [bd, pd, pd, Some (int k)] [batch, points, points, k]"
    using bd pd by (auto simp: shape_agrees_def)
  have nag: "\<not> shape_agrees [bd, pd, pd, Some (int k)] [batch, points, k]"
    by (auto simp: shape_agrees_def dest: list_all2_lengthD)
  show ?thesis
    using cos shp ag nag by (simp add: outs rank_def)
qed

lemma layer0_init:
  "Preprocessing_init (\<lambda>kw. None) 3 None ''gaussian'' [(''sum_points'', PBool True)] = Inr layer0"
  by (simp add: Preprocessing_init_cases dict_pop_def layer0_def)

lemma layer0_call:
  "\<exists>vectors. Preprocessing_call ai0 (1 / 10 ^ 8) layer0 (r0, z0) =
     Inr [Tensor [1, 2, 3] (\<lambda>idx. 0),
          Tensor [1, 2, 1] (\<lambda>idx. \<Sum>j\<leftarrow>[0..<2]. 1),
          vectors]"
proof -
  have "shape r0 = [1, 2] @ [3]" by (simp add: r0_def)
  from UnitVectors_own_norm [OF _ this, of "1 / 10 ^ 8" "UnitVectors_init True"]
  obtain t where t: "UnitVectors_call (1 / 10 ^ 8) (UnitVectors_init True) r0 = Inr t"
    by (auto simp: UnitVectors_init_def)
  have s: "shape (Tensor [1, 2, 2, 1] (\<lambda>idx. 1 :: real)) = [1, 2] @ [2, 1]"
    by simp
  show ?thesis
    using t reduce_sum_minus2 [OF s]
    by (simp add: Preprocessing_call_def layer0_def ai0_def)
qed

theorem Preprocessing_call_outputs_witness:
  "\<exists>self outs.
     Preprocessing_init (\<lambda>kw. None) 3 None ''gaussian'' [(''sum_points'', PBool True)] = Inr self \<and>
     Preprocessing_call ai0 (1 / 10 ^ 8) self (r0, z0) = Inr outs \<and>
     truthy (sum_points self) \<and> length outs = 3 \<and>
     shape (outs ! 1) = [1, 2, 1] \<and> elem (outs ! 1) [0, 0, 0] = 2"
proof -
  from layer0_call obtain vectors where
    c: "Preprocessing_call ai0 (1 / 10 ^ 8) layer0 (r0, z0) =
     Inr [Tensor [1, 2, 3] (\<lambda>idx. 0), Tensor [1, 2, 1] (\<lambda>idx. \<Sum>j\<leftarrow>[0..<2]. 1), vectors]"
    by blast
  from Preprocessing_call_outputs [OF layer0_init, THEN iffD1, OF c]
  obtain one_hot_z image vectors' rbf pre n k where
    o: "[Tensor [1, 2, 3] (\<lambda>idx. 0), Tensor [1, 2, 1] (\<lambda>idx. \<Sum>j\<leftarrow>[0..<2]. 1), vectors] =
        [one_hot_z, image, vectors']"
    and rbf: "call_layer ai0 (cutoff layer0) [Tensor [1, 2, 2, 1] (\<lambda>idx. 1), Tensor [1, 2, 2, 1] (\<lambda>idx. 1)] = Inr rbf"
    and s: "shape rbf = pre @ [n, k]" "shape image = pre @ [k]"
    and e: "\<And>bs c. length bs = length pre \<Longrightarrow>
                   elem image (bs @ [c]) = (\<Sum>j\<leftarrow>[0..<n]. elem rbf (bs @ [j, c]))"
    by (auto simp: layer0_def ai0_def)
  have rbf': "rbf = Tensor [1, 2, 2, 1] (\<lambda>idx. 1)"
    using rbf by (simp add: ai0_def)
  have pre: "pre = [1, 2]" "n = 2" "k = 1"
    using s(1) by (auto simp: rbf' append_eq_Cons_conv Cons_eq_append_conv)
  have u: "[0..<2] = [0, Suc 0]" by (simp add: upt_rec)
  have "elem image ([0, 0] @ [0]) = 2"
    using e [of "[0, 0]" 0] by (simp add: pre rbf' u)
  moreover have "shape image = [1, 2, 1]"
    using s(2) pre by simp
  moreover have "truthy (sum_points layer0)"
    by (simp add: layer0_def)
  ultimately show ?thesis
    using layer0_init c o by (intro exI [of _ layer0] exI [of _ "[one_hot_z, image, vectors']"]) auto
qed

theorem compute_output_shape_rank_witness:
  "\<exists>self outs.
     Preprocessing_init (\<lambda>kw. None) 3 None ''gaussian'' [(''sum_points'', PBool True)] = Inr self \<and>
     Preprocessing_call ai0 (1 / 10 ^ 8) self (r0, z0) = Inr outs \<and>
     truthy (sum_points self) \<and>
     compute_output_shape ai0 self [[None, Some 2, Some 3], [None, Some 2]] =
       Inr [[None, Some 2, Some 3], [None, Some 2, Some 2, Some 1], [None, Some 2, Some 2, Some 3]] \<and>
     shape (outs ! 1) = [1, 2, 1] \<and>
     \<not> shape_agrees [None, Some 2, Some 2, Some 1] (shape (outs ! 1))"
proof -
  from layer0_call obtain vectors where
    c: "Preprocessing_call ai0 (1 / 10 ^ 8) layer0 (r0, z0) =
     Inr [Tensor [1, 2, 3] (\<lambda>idx. 0), Tensor [1, 2, 1] (\<lambda>idx. \<Sum>j\<leftarrow>[0..<2]. 1), vectors]"
    by blast
  have t: "truthy (sum_points layer0)"
    by (simp add: layer0_def)
  have l: "call_layer ai0 l xs = Inr (Tensor [1, 2, 2, 1] (\<lambda>idx. 1))" for l xs
    by (simp add: ai0_def)
  have "\<exists>s0 s1 s2.
     compute_output_shape ai0 layer0 [[None, Some (int 2), Some 3], [None, Some 2]] = Inr [s0, s1, s2] \<and>
     s1 = [None, Some (int 2), Some (int 2), Some (int 1)] \<and> length s1 = 4 \<and>
     shape ([Tensor [1, 2, 3] (\<lambda>idx. 0), Tensor [1, 2, 1] (\<lambda>idx. \<Sum>j\<leftarrow>[0..<2]. 1), vectors] ! 1) =
       (if truthy (sum_points layer0) then [1, 2, 1] else [1, 2, 2, 1]) \<and>
     rank ([Tensor [1, 2, 3] (\<lambda>idx. 0), Tensor [1, 2, 1] (\<lambda>idx. \<Sum>j\<leftarrow>[0..<2]. 1), vectors] ! 1) = (if truthy (sum_points layer0) then 3 else 4) \<and>
     (shape_agrees s1 (shape ([Tensor [1, 2, 3] (\<lambda>idx. 0), Tensor [1, 2, 1] (\<lambda>idx. \<Sum>j\<leftarrow>[0..<2]. 1), vectors] ! 1)) \<longleftrightarrow> \<not> truthy (sum_points layer0))"
    by (rule compute_output_shape_rank [OF layer0_init c l l l, where batch = 1 and points = 2 and k = 1])
       (simp_all add: ai0_def)
  then have "\<not> shape_agrees [None, Some 2, Some 2, Some 1] [1, 2, 1]"
    using t by auto
  moreover have "compute_output_shape ai0 layer0 [[None, Some 2, Some 3], [None, Some 2]] =
       Inr [[None, Some 2, Some 3], [None, Some 2, Some 2, Some 1], [None, Some 2, Some 2, Some 3]]"
    by (simp add: compute_output_shape_def TensorShape_def layer0_def ai0_def)
  ultimately show ?thesis
    using layer0_init c t
    by (intro exI [of _ layer0] exI [of _ "[Tensor [1, 2, 3] (\<lambda>idx. 0), Tensor [1, 2, 1] (\<lambda>idx. \<Sum>j\<leftarrow>[0..<2]. 1), vectors]"]) simp
qed

section \<open>Properties of ClassificationMetrics\<close>

lemma round_half_even_nonneg: "0 \<le> x \<Longrightarrow> 0 \<le> round_half_even x"
  by (simp add: round_half_even_def Let_def)

lemma counts_nonneg: "0 \<le> np_sum (np_round (np_clip a 0 1))"
  unfolding np_sum_def np_round_def np_clip_def tmap_def
  by (intro sum_list_nonneg) (auto intro!: round_half_even_nonneg)

lemma denominator_pos: "0 < np_sum (np_round (np_clip a 0 1)) + 1 / 10 ^ 7"
  using counts_nonneg [of a] by simp

lemma recall_value:
  "np_multiply y_true y_pred = Inr yy \<Longrightarrow>
   recall y_true y_pred =
     Inr (np_sum (np_round (np_clip yy 0 1)) /
          (np_sum (np_round (np_clip y_true 0 1)) + 1 / 10 ^ 7))"
  using denominator_pos [of y_true] by (simp add: recall_def np_divide_def Let_def)

lemma precision_value:
  "np_multiply y_true y_pred = Inr yy \<Longrightarrow>
   precision y_true y_pred =
     Inr (np_sum (np_round (np_clip yy 0 1)) /
          (np_sum (np_round (np_clip y_pred 0 1)) + 1 / 10 ^ 7))"
  using denominator_pos [of y_pred] by (simp add: precision_def np_divide_def Let_def)

lemma recall_nonneg: "recall y_true y_pred = Inr r \<Longrightarrow> 0 \<le> r"
  using denominator_pos [of y_true] counts_nonneg
  by (auto simp: recall_def np_divide_def Let_def split: sum.splits if_splits)

lemma precision_nonneg: "precision y_true y_pred = Inr r \<Longrightarrow> 0 \<le> r"
  using denominator_pos [of y_pred] counts_nonneg
  by (auto simp: precision_def np_divide_def Let_def split: sum.splits if_splits)

lemma f1_value:
  "recall y_true y_pred = Inr r \<Longrightarrow> precision y_true y_pred = Inr p \<Longrightarrow>
   f1_score y_true y_pred = Inr (2 * ((p * r) / (p + r + 1 / 10 ^ 7)))"
  using recall_nonneg [of y_true y_pred r] precision_nonneg [of y_true y_pred p]
  by (simp add: f1_score_def np_divide_def)

lemma metrics_shape_error:
  "np_multiply y_true y_pred = Inl e \<Longrightarrow>
   recall y_true y_pred = Inl e \<and> precision y_true y_pred = Inl e \<and>
   f1_score y_true y_pred = Inl e"
  by (simp add: recall_def precision_def f1_score_def)

text \<open>
  C4. \<open>recall\<close> returns the sum of the rounded, clipped product \<open>y_true * y_pred\<close> divided
  by the sum of the rounded, clipped \<open>y_true\<close> plus 1e-7; \<open>precision\<close> returns the same
  numerator divided by the sum of the rounded, clipped \<open>y_pred\<close> plus 1e-7; \<open>f1_score\<close>
  returns \<open>2 * (precision * recall) / (precision + recall + 1e-7)\<close> of those two values.
  When the two arrays do not broadcast, the product raises and all three functions raise
  the same error.
\<close>

theorem metrics_formulas:
  "(case np_multiply y_true y_pred of
      Inl e \<Rightarrow>
        recall y_true y_pred = Inl e \<and> precision y_true y_pred = Inl e \<and>
        f1_score y_true y_pred = Inl e
    | Inr yy \<Rightarrow>
        (let true_positives = np_sum (np_round (np_clip yy 0 1));
             r = true_positives / (np_sum (np_round (np_clip y_true 0 1)) + 1 / 10 ^ 7);
             p = true_positives / (np_sum (np_round (np_clip y_pred 0 1)) + 1 / 10 ^ 7)
         in recall y_true y_pred = Inr r \<and> precision y_true y_pred = Inr p \<and>
            f1_score y_true y_pred = Inr (2 * ((p * r) / (p + r + 1 / 10 ^ 7)))))"
proof (cases "np_multiply y_true y_pred")
  case (Inl e)
  then show ?thesis
    using metrics_shape_error [of y_true y_pred e] by simp
next
  case (Inr yy)
  then show ?thesis
    using recall_value [OF Inr] precision_value [OF Inr]
    by (simp add: Let_def f1_value)
qed

theorem metrics_formulas_witness:
  "recall y_true4 y_pred4 = Inr (10000000 / 20000001) \<and>
   precision y_true4 y_pred4 = Inr (10000000 / 20000001) \<and>
   f1_score y_true4 y_pred4 =
     Inr (2 * ((10000000 / 20000001 * (10000000 / 20000001)) /
               (10000000 / 20000001 + 10000000 / 20000001 + 1 / 10 ^ 7)))"
proof -
  have u: "[0..<4] = [0, 1, 2, 3]" by (simp add: upt_rec)
  have m: "np_multiply y_true4 y_pred4 =
      Inr (Tensor [4] (\<lambda>idx. elem y_true4 (broadcast_index [4] idx) *
                              elem y_pred4 (broadcast_index [4] idx)))"
    by (simp add: np_multiply_def broadcast_op_def broadcast_shapes_def y_true4_def y_pred4_def)
  have tp: "np_sum (np_round (np_clip (Tensor [4] (\<lambda>idx. elem y_true4 (broadcast_index [4] idx) *
                              elem y_pred4 (broadcast_index [4] idx))) 0 1)) = 1"
    by (simp add: np_sum_def np_round_def np_clip_def tmap_def u broadcast_index_def
        y_true4_def y_pred4_def round_half_even_def Let_def)
  have pt: "np_sum (np_round (np_clip y_true4 0 1)) = 2"
    by (simp add: np_sum_def np_round_def np_clip_def tmap_def u y_true4_def
        round_half_even_def Let_def)
  have pp: "np_sum (np_round (np_clip y_pred4 0 1)) = 2"
    by (simp add: np_sum_def np_round_def np_clip_def tmap_def u y_pred4_def
        round_half_even_def Let_def)
  have q: "(1::real) / (2 + 1 / 10 ^ 7) = 10000000 / 20000001"
    by simp
  show ?thesis
    using metrics_formulas [of y_true4 y_pred4]
    unfolding m sum.case Let_def tp pt pp q by simp
qed

text \<open>
  C5. Whatever the two arrays hold (all zeros included), the denominator of \<open>recall\<close> and
  the denominator of \<open>precision\<close> are a non-negative count plus 1e-7, hence strictly
  positive; the denominator of \<open>f1_score\<close> is strictly positive as well; none of the
  three functions divides by zero, and each returns a number whenever the shapes of the
  two arrays broadcast.
\<close>

theorem metrics_total:
  "0 \<le> np_sum (np_round (np_clip y_true 0 1)) \<and>
   0 < np_sum (np_round (np_clip y_true 0 1)) + 1 / 10 ^ 7 \<and>
   0 \<le> np_sum (np_round (np_clip y_pred 0 1)) \<and>
   0 < np_sum (np_round (np_clip y_pred 0 1)) + 1 / 10 ^ 7 \<and>
   (\<forall>r p. recall y_true y_pred = Inr r \<longrightarrow> precision y_true y_pred = Inr p \<longrightarrow>
      0 < p + r + 1 / 10 ^ 7) \<and>
   recall y_true y_pred \<noteq> Inl DivideByZero \<and>
   precision y_true y_pred \<noteq> Inl DivideByZero \<and>
   f1_score y_true y_pred \<noteq> Inl DivideByZero \<and>
   (broadcast_shapes (shape y_true) (shape y_pred) \<noteq> None \<longrightarrow>
      (\<exists>r p f. recall y_true y_pred = Inr r \<and> precision y_true y_pred = Inr p \<and>
         f1_score y_true y_pred = Inr f))"
proof -
  have dz: "recall y_true y_pred \<noteq> Inl DivideByZero \<and>
      precision y_true y_pred \<noteq> Inl DivideByZero \<and>
      f1_score y_true y_pred \<noteq> Inl DivideByZero"
  proof (cases "np_multiply y_true y_pred")
    case (Inl e)
    then have "e = ValueError"
      by (auto simp: np_multiply_def split: option.splits)
    with Inl show ?thesis
      using metrics_shape_error [of y_true y_pred e] by simp
  next
    case (Inr yy)
    then show ?thesis
      using recall_value [OF Inr] precision_value [OF Inr] by (simp add: f1_value)
  qed
  have tot: "\<exists>r p f. recall y_true y_pred = Inr r \<and> precision y_true y_pred = Inr p \<and>
      f1_score y_true y_pred = Inr f"
    if "broadcast_shapes (shape y_true) (shape y_pred) \<noteq> None"
  proof -
    from that obtain yy where yy: "np_multiply y_true y_pred = Inr yy"
      by (auto simp: np_multiply_def broadcast_op_def split: option.splits)
    show ?thesis
      using recall_value [OF yy] precision_value [OF yy] by (simp add: f1_value)
  qed
  have f1den: "0 < p + r + 1 / 10 ^ 7"
    if "recall y_true y_pred = Inr r" "precision y_true y_pred = Inr p" for r p
    using recall_nonneg [OF that(1)] precision_nonneg [OF that(2)] by simp
  show ?thesis
    using counts_nonneg [of y_true] counts_nonneg [of y_pred]
      denominator_pos [of y_true] denominator_pos [of y_pred] dz tot f1den
    by blast
qed

theorem metrics_total_witness:
  "broadcast_shapes (shape zeros3) (shape zeros3) \<noteq> None \<and>
   recall zeros3 zeros3 = Inr 0 \<and> precision zeros3 zeros3 = Inr 0 \<and>
   f1_score zeros3 zeros3 = Inr 0 \<and>
   (0::real) < 0 + 0 + 1 / 10 ^ 7"
proof -
  have b: "broadcast_shapes (shape zeros3) (shape zeros3) \<noteq> None"
    by (simp add: zeros3_def broadcast_shapes_def)
  have m: "np_multiply zeros3 zeros3 = Inr (Tensor [3] (\<lambda>idx. 0))"
    by (simp add: np_multiply_def broadcast_op_def broadcast_shapes_def zeros3_def)
  have s: "np_sum (np_round (np_clip (Tensor [3] (\<lambda>idx. 0)) 0 1)) = 0"
    by (simp add: np_sum_def np_round_def np_clip_def tmap_def round_half_even_def comp_def)
  have r: "recall zeros3 zeros3 = Inr 0"
    using recall_value [OF m] s by (simp add: zeros3_def)
  have p: "precision zeros3 zeros3 = Inr 0"
    using precision_value [OF m] s by (simp add: zeros3_def)
  from metrics_total [of zeros3 zeros3] b r p
  have "(0::real) < 0 + 0 + 1 / 10 ^ 7" and "\<exists>f. f1_score zeros3 zeros3 = Inr f"
    by blast+
  moreover have "f1_score zeros3 zeros3 = Inr 0"
    using f1_value [OF r p] by simp
  ultimately show ?thesis
    using b r p by blast
qed

section \<open>Properties of WriteCartesians\<close>

lemma all_indices_valid:
  "idx \<in> set (all_indices shp) \<Longrightarrow> list_all2 (<) idx shp"
  by (induction shp arbitrary: idx) auto

lemma broadcast_index_self:
  "idx \<in> set (all_indices shp) \<Longrightarrow> broadcast_index shp idx = idx"
  using broadcast_index_valid [of idx shp "[]" "[]"] all_indices_valid [of idx shp]
  by simp

lemma np_mean_same_shape:
  assumes "broadcast_op f a b = Some t" "shape a = shp" "shape b = shp"
  shows "shape t = shp" "elements t = map (\<lambda>idx. f (elem a idx) (elem b idx)) (all_indices shp)"
  using assms
  by (auto simp: broadcast_op_def broadcast_shapes_same elements_def broadcast_index_self)

lemma mae_same_shape:
  assumes "shape x = shp" "shape y = shp" "all_indices shp \<noteq> []"
  shows "mae x y =
    Inr (Float ((\<Sum>idx\<leftarrow>all_indices shp. \<bar>elem x idx - elem y idx\<bar>) /
                real (length (all_indices shp))))"
proof -
  obtain d where d: "broadcast_op (-) x y = Some d"
    using assms by (simp add: broadcast_op_def broadcast_shapes_same)
  have e: "elements (np_abs d) = map (\<lambda>idx. \<bar>elem x idx - elem y idx\<bar>) (all_indices shp)"
    using np_mean_same_shape [OF d assms(1,2)]
    by (simp add: elements_def np_abs_def tmap_def)
  show ?thesis
    using assms(3) by (simp add: mae_def np_subtract_def d np_mean_def e)
qed

lemma midpoint_loss_same_shape:
  assumes "shape r = shp" "shape p = shp" "shape ts = shp" "all_indices shp \<noteq> []"
  shows "midpoint_loss r p ts =
    Inr (Float ((\<Sum>idx\<leftarrow>all_indices shp. \<bar>(elem r idx + elem p idx) / 2 - elem ts idx\<bar>) /
                real (length (all_indices shp))))"
proof -
  obtain s where s: "broadcast_op (+) r p = Some s"
    using assms by (simp add: broadcast_op_def broadcast_shapes_same)
  have sh: "shape (tmap (\<lambda>x. x / 2) s) = shp"
    using np_mean_same_shape(1) [OF s assms(1,2)] by (simp add: tmap_def)
  have el: "elem (tmap (\<lambda>x. x / 2) s) idx = (elem r idx + elem p idx) / 2"
    if "idx \<in> set (all_indices shp)" for idx
    using s that assms(1,2)
    by (auto simp: broadcast_op_def broadcast_shapes_same tmap_def broadcast_index_self)
  have "(\<Sum>idx\<leftarrow>all_indices shp. \<bar>elem (tmap (\<lambda>x. x / 2) s) idx - elem ts idx\<bar>) =
     (\<Sum>idx\<leftarrow>all_indices shp. \<bar>(elem r idx + elem p idx) / 2 - elem ts idx\<bar>)"
    by (rule arg_cong [where f = sum_list], rule map_cong) (simp_all add: el)
  then show ?thesis
    using mae_same_shape [OF sh assms(3,4)] by (simp add: midpoint_loss_def np_add_def s)
qed

lemma on_train_end_some:
  assumes "test self = Some t" "validation self = Some ((z, r, p), ts)"
  shows "on_train_end m self =
     (case midpoint_loss r p ts of
         Inl e \<Rightarrow> ([], Some e)
       | Inr loss \<Rightarrow>
             (Print ''midpoint test loss: '' loss #
                fst (write_cartesians m self t (path self @ [''test''])),
              snd (write_cartesians m self t (path self @ [''test'']))))"
  unfolding on_train_end_def assms option.case prod.case
  by (cases "midpoint_loss r p ts") (simp_all add: case_prod_beta)

lemma on_epoch_end_some:
  assumes "validation self = Some ((z, r, p), ts)" "write_rate self \<noteq> 0"
      "epoch mod write_rate self = 0"
  shows "on_epoch_end m self epoch =
      (case midpoint_loss r p ts of
         Inl e \<Rightarrow> ([], Some e)
       | Inr loss \<Rightarrow>
             (SummaryScalar ''val_midpoint_loss'' loss epoch #
                fst (write_cartesians m self ((z, r, p), ts)
                       (path self @ [''epoch_'' @ str_int epoch])),
              snd (write_cartesians m self ((z, r, p), ts)
                     (path self @ [''epoch_'' @ str_int epoch]))))"
  unfolding on_epoch_end_def assms option.case prod.case
  using assms(2,3) by (cases "midpoint_loss r p ts") (simp_all add: case_prod_beta)

lemma on_epoch_end_only:
  "fst (on_epoch_end m self epoch) \<noteq> [] \<Longrightarrow>
      validation self \<noteq> None \<and> write_rate self \<noteq> 0 \<and> epoch mod write_rate self = 0"
  unfolding on_epoch_end_def
  by (cases "validation self"; cases "write_rate self = 0"; cases "epoch mod write_rate self = 0")
     simp_all

text \<open>
  C7. \<open>on_epoch_end\<close> writes nothing when \<open>validation\<close> is \<open>None\<close>. Whatever it writes or
  logs, it does so only with validation data present and on an epoch that \<open>write_rate\<close>
  divides. On such an epoch it logs the scalar \<^verbatim>\<open>val_midpoint_loss\<close> and then writes the
  validation structures under \<^verbatim>\<open>path/epoch_{epoch}\<close>; the loss is the mean absolute error
  between \<open>(r + p) / 2\<close> and \<open>ts\<close>, which for arrays of one shape is the mean over all
  elements of \<open>\<bar>(r + p) / 2 - ts\<bar>\<close>.
\<close>

theorem on_epoch_end_writes:
  "(validation self = None \<longrightarrow> on_epoch_end m self epoch = ([], None)) \<and>
   (fst (on_epoch_end m self epoch) \<noteq> [] \<longrightarrow>
      validation self \<noteq> None \<and> write_rate self \<noteq> 0 \<and> epoch mod write_rate self = 0) \<and>
   (\<forall>z r p ts. validation self = Some ((z, r, p), ts) \<longrightarrow> write_rate self \<noteq> 0 \<longrightarrow>
      epoch mod write_rate self = 0 \<longrightarrow>
      on_epoch_end m self epoch =
        (case midpoint_loss r p ts of
           Inl e \<Rightarrow> ([], Some e)
         | Inr loss \<Rightarrow>
             (SummaryScalar ''val_midpoint_loss'' loss epoch #
                fst (write_cartesians m self ((z, r, p), ts)
                       (path self @ [''epoch_'' @ str_int epoch])),
              snd (write_cartesians m self ((z, r, p), ts)
                     (path self @ [''epoch_'' @ str_int epoch])))) \<and>
      (\<forall>shp. shape r = shp \<longrightarrow> shape p = shp \<longrightarrow> shape ts = shp \<longrightarrow> all_indices shp \<noteq> [] \<longrightarrow>
         midpoint_loss r p ts =
           Inr (Float ((\<Sum>idx\<leftarrow>all_indices shp. \<bar>(elem r idx + elem p idx) / 2 - elem ts idx\<bar>) /
                       real (length (all_indices shp))))))"
proof (intro conjI allI impI)
  assume "validation self = None"
  then show "on_epoch_end m self epoch = ([], None)"
    by (simp add: on_epoch_end_def)
next
  assume a: "fst (on_epoch_end m self epoch) \<noteq> []"
  show "validation self \<noteq> None" "write_rate self \<noteq> 0" "epoch mod write_rate self = 0"
    using on_epoch_end_only [OF a] by simp_all
next
  fix z r p ts
  assume "validation self = Some ((z, r, p), ts)" "write_rate self \<noteq> 0"
    "epoch mod write_rate self = 0"
  then show "on_epoch_end m self epoch =
        (case midpoint_loss r p ts of
           Inl e \<Rightarrow> ([], Some e)
         | Inr loss \<Rightarrow>
             (SummaryScalar ''val_midpoint_loss'' loss epoch #
                fst (write_cartesians m self ((z, r, p), ts)
                       (path self @ [''epoch_'' @ str_int epoch])),
              snd (write_cartesians m self ((z, r, p), ts)
                     (path self @ [''epoch_'' @ str_int epoch]))))"
    by (rule on_epoch_end_some)
next
  fix r p ts :: ndarray and shp
  assume "shape r = shp" "shape p = shp" "shape ts = shp" "all_indices shp \<noteq> []"
  then show "midpoint_loss r p ts =
           Inr (Float ((\<Sum>idx\<leftarrow>all_indices shp. \<bar>(elem r idx + elem p idx) / 2 - elem ts idx\<bar>) /
                       real (length (all_indices shp))))"
    by (rule midpoint_loss_same_shape)
qed

text \<open>
  C9. With test data present, \<open>on_train_end\<close> unpacks \<open>self.validation\<close>, not
  \<open>self.test\<close>: when \<open>validation\<close> is \<open>None\<close> it fails with a \<^verbatim>\<open>TypeError\<close> before anything is
  written, and when both are present the loss it prints as the midpoint test loss is the
  midpoint loss of the validation arrays; only the files come from the test data.
\<close>

theorem on_train_end_uses_validation:
  assumes "test self = Some t"
  shows "(validation self = None \<longrightarrow> on_train_end m self = ([], Some TypeError)) \<and>
   (\<forall>z r p ts. validation self = Some ((z, r, p), ts) \<longrightarrow>
      on_train_end m self =
        (case midpoint_loss r p ts of
           Inl e \<Rightarrow> ([], Some e)
         | Inr loss \<Rightarrow>
             (Print ''midpoint test loss: '' loss #
                fst (write_cartesians m self t (path self @ [''test''])),
              snd (write_cartesians m self t (path self @ [''test''])))))"
proof (intro conjI allI impI)
  assume "validation self = None"
  then show "on_train_end m self = ([], Some TypeError)"
    using assms by (simp add: on_train_end_def)
next
  fix z r p ts
  assume "validation self = Some ((z, r, p), ts)"
  with assms show "on_train_end m self =
        (case midpoint_loss r p ts of
           Inl e \<Rightarrow> ([], Some e)
         | Inr loss \<Rightarrow>
             (Print ''midpoint test loss: '' loss #
                fst (write_cartesians m self t (path self @ [''test''])),
              snd (write_cartesians m self t (path self @ [''test'']))))"
    by (rule on_train_end_some)
qed

lemma written_files_append:
  "written_files (xs @ ys) = written_files xs @ written_files ys"
  by (induction xs rule: written_files.induct) simp_all

lemma write_structure_files:
  "prefix (written_files (fst (write_structure m base (i, rest)))) (structure_files base i) \<and>
   (snd (write_structure m base (i, rest)) = None \<longrightarrow>
      written_files (fst (write_structure m base (i, rest))) = structure_files base i)"
  by (simp add: write_structure_def structure_files_def np_savetxt_def Let_def
      split: prod.splits sum.splits option.splits if_splits)

lemma write_loop_files:
  "prefix (written_files (fst (write_loop m base items)))
     (concat (map (structure_files base) (map fst items))) \<and>
   (snd (write_loop m base items) = None \<longrightarrow>
      written_files (fst (write_loop m base items)) =
        concat (map (structure_files base) (map fst items)))"
proof (induction items)
  case Nil
  show ?case by simp
next
  case (Cons it items)
  obtain i rest where it: "it = (i, rest)" by (cases it)
  obtain ev res where ws: "write_structure m base (i, rest) = (ev, res)"
    by (cases "write_structure m base (i, rest)")
  obtain ev' res' where wl: "write_loop m base items = (ev', res')"
    by (cases "write_loop m base items")
  from write_structure_files [of m base i rest] ws
  have p: "prefix (written_files ev) (structure_files base i)"
    and q: "res = None \<Longrightarrow> written_files ev = structure_files base i"
    by simp_all
  show ?case
  proof (cases res)
    case None
    with Cons wl q show ?thesis
      by (simp add: it ws written_files_append)
  next
    case (Some e)
    with p show ?thesis
      by (simp add: it ws prefix_prefix)
  qed
qed

lemma slice_iter_length:
  "slice_to a stop = Inr s \<Longrightarrow> iter_array s = Inr xs \<Longrightarrow> 0 \<le> stop \<Longrightarrow>
   length xs \<le> nat stop"
  by (auto simp: slice_to_def iter_array_def split: list.splits)

lemma map_fst_zip_upt:
  "map fst (zip [0..<n] ys) = [0..<min n (length ys)]"
  by (simp add: map_fst_zip_take take_upt min.commute)

lemma unwrap_items:
  assumes "unwrap_data_lazily m self d = Inr items" "0 \<le> max_structures self"
  shows "length items \<le> nat (max_structures self)"
    and "map fst items = [0..<length items]"
proof -
  obtain atomic_nums reactants products tts where d: "d = ((atomic_nums, reactants, products), tts)"
    by (cases d) auto
  define f where "f = (\<lambda>a. case slice_to a (max_structures self) of
                                       Inl e \<Rightarrow> Inl e
                                     | Inr s \<Rightarrow> iter_array s)"
  from assms(1) obtain zs rs ps ts preds where
    z: "f atomic_nums = Inr zs"
    and items: "items = zip [0..<length zs] (zip zs (zip rs (zip ps (zip ts preds))))"
    unfolding unwrap_data_lazily_def d prod.case Let_def f_def [symmetric]
    by (auto split: sum.splits list.splits)
  have "length zs \<le> nat (max_structures self)"
    using z assms(2) slice_iter_length unfolding f_def
    by (auto split: sum.splits)
  then show "length items \<le> nat (max_structures self)"
    by (simp add: items)
  show "map fst items = [0..<length items]"
    unfolding items map_fst_zip_upt by simp
qed

lemma slice_iter_length_eq:
  "slice_to a stop = Inr s \<Longrightarrow> iter_array s = Inr xs \<Longrightarrow> 0 \<le> stop \<Longrightarrow>
   length xs = min (first_axis a) (nat stop)"
  by (auto simp: slice_to_def iter_array_def first_axis_def split: list.splits)

lemma map_result_five:
  "map_result f [a, b, c, d, e] = Inr ys \<Longrightarrow>
   \<exists>va vb vc vd ve. f a = Inr va \<and> f b = Inr vb \<and> f c = Inr vc \<and> f d = Inr vd \<and>
      f e = Inr ve \<and> ys = [va, vb, vc, vd, ve]"
  by (simp split: sum.splits)

lemma unwrap_items_length:
  assumes "unwrap_data_lazily m self ((z, r, p), ts) = Inr items" "0 \<le> max_structures self"
  shows "length items =
     min (nat (max_structures self))
       (min (first_axis z) (min (first_axis r) (min (first_axis p)
          (min (first_axis ts) (first_axis (model_predict m [z, r, p]))))))"
proof -
  define f where "f = (\<lambda>a. case slice_to a (max_structures self) of
                                       Inl e \<Rightarrow> Inl e
                                     | Inr s \<Rightarrow> iter_array s)"
  have len: "length xs = min (first_axis a) (nat (max_structures self))" if "f a = Inr xs" for a xs
    using that assms(2) slice_iter_length_eq unfolding f_def
    by (auto split: sum.splits)
  obtain ys where ys: "map_result f [z, r, p, ts, model_predict m [z, r, p]] = Inr ys"
    using assms(1) unfolding unwrap_data_lazily_def prod.case Let_def f_def [symmetric]
    by (cases "map_result f [z, r, p, ts, model_predict m [z, r, p]]") simp_all
  from map_result_five [OF ys] obtain zs rs ps tss preds where
    fs: "f z = Inr zs" "f r = Inr rs" "f p = Inr ps" "f ts = Inr tss"
      "f (model_predict m [z, r, p]) = Inr preds"
    and ys': "ys = [zs, rs, ps, tss, preds]"
    by blast
  have items: "items = zip [0..<length zs] (zip zs (zip rs (zip ps (zip tss preds))))"
    using assms(1) unfolding unwrap_data_lazily_def prod.case Let_def f_def [symmetric] ys ys'
    by simp
  have l: "length zs = min (first_axis z) (nat (max_structures self))"
    "length rs = min (first_axis r) (nat (max_structures self))"
    "length ps = min (first_axis p) (nat (max_structures self))"
    "length tss = min (first_axis ts) (nat (max_structures self))"
    "length preds = min (first_axis (model_predict m [z, r, p])) (nat (max_structures self))"
    using fs by (simp_all add: len)
  show ?thesis
    unfolding items length_zip length_upt l
    by (simp only: min.assoc min.left_commute min.commute min.idem min.left_idem diff_zero)
qed

lemma slice_iter_entries:
  "slice_to a stop = Inr s \<Longrightarrow> iter_array s = Inr xs \<Longrightarrow> xs = map (entry a) [0..<length xs]"
  by (auto simp: slice_to_def iter_array_def entry_def split: list.splits)

lemma unwrap_items_entries:
  assumes "unwrap_data_lazily m self ((z, r, p), ts) = Inr items" "k < length items"
  shows "items ! k =
    (k, entry z k, entry r k, entry p k, entry ts k, entry (model_predict m [z, r, p]) k)"
proof -
  define f where "f = (\<lambda>a. case slice_to a (max_structures self) of
                                       Inl e \<Rightarrow> Inl e
                                     | Inr s \<Rightarrow> iter_array s)"
  have ent: "xs ! j = entry a j" if "f a = Inr xs" "j < length xs" for a xs j
  proof -
    from that(1) obtain s where "slice_to a (max_structures self) = Inr s" "iter_array s = Inr xs"
      unfolding f_def by (auto split: sum.splits)
    then have "xs = map (entry a) [0..<length xs]"
      by (rule slice_iter_entries)
    then have "xs ! j = map (entry a) [0..<length xs] ! j"
      by simp
    with that(2) show ?thesis by simp
  qed
  obtain ys where ys: "map_result f [z, r, p, ts, model_predict m [z, r, p]] = Inr ys"
    using assms(1) unfolding unwrap_data_lazily_def prod.case Let_def f_def [symmetric]
    by (cases "map_result f [z, r, p, ts, model_predict m [z, r, p]]") simp_all
  from map_result_five [OF ys] obtain zs rs ps tss preds where
    fs: "f z = Inr zs" "f r = Inr rs" "f p = Inr ps" "f ts = Inr tss"
      "f (model_predict m [z, r, p]) = Inr preds"
    and ys': "ys = [zs, rs, ps, tss, preds]"
    by blast
  have items: "items = zip [0..<length zs] (zip zs (zip rs (zip ps (zip tss preds))))"
    using assms(1) unfolding unwrap_data_lazily_def prod.case Let_def f_def [symmetric] ys ys'
    by simp
  have k: "k < length zs" "k < length rs" "k < length ps" "k < length tss" "k < length preds"
    using assms(2) unfolding items by simp_all
  show ?thesis
    unfolding items using k fs [THEN ent] by simp
qed

text \<open>
  C6, as it holds of the callback. For a non-negative \<open>max_structures\<close>,
  \<open>write_cartesians\<close> exports the structures
  \<open>0, ..., n - 1\<close>, where \<open>n\<close> is the smallest of \<open>max_structures\<close> and the lengths of the
  five arrays: at most \<open>max_structures\<close> structures, and none past the first
  \<open>max_structures\<close> entries, the structure \<open>k\<close> being made of the entries \<open>k\<close> of the five
  arrays. A run that ends without an exception has written, for each
  exported index in turn, the vectors text file and the true, predicted, midpoint,
  reactant and product \<^verbatim>\<open>.xyz\<close> files under the six subdirectories of the base path; a run
  that an exception ends has written an initial part of these files.
\<close>

theorem write_cartesians_files:
  assumes "0 \<le> max_structures self"
  shows "(case unwrap_data_lazily m self ((z, r, p), ts) of
      Inl e \<Rightarrow> write_cartesians m self ((z, r, p), ts) base = ([], Some e)
    | Inr items \<Rightarrow>
        length items \<le> nat (max_structures self) \<and>
        length items =
          min (nat (max_structures self))
            (min (first_axis z) (min (first_axis r) (min (first_axis p)
               (min (first_axis ts) (first_axis (model_predict m [z, r, p])))))) \<and>
        (\<forall>k<length items.
           items ! k =
             (k, entry z k, entry r k, entry p k, entry ts k,
              entry (model_predict m [z, r, p]) k)) \<and>
        prefix (written_files (fst (write_cartesians m self ((z, r, p), ts) base)))
          (concat (map (structure_files base) [0..<length items])) \<and>
        (snd (write_cartesians m self ((z, r, p), ts) base) = None \<longrightarrow>
           written_files (fst (write_cartesians m self ((z, r, p), ts) base)) =
             concat (map (structure_files base) [0..<length items])))"
proof (cases "unwrap_data_lazily m self ((z, r, p), ts)")
  case (Inl e)
  then show ?thesis by (simp add: write_cartesians_def)
next
  case (Inr items)
  have wc: "write_cartesians m self ((z, r, p), ts) base = write_loop m base items"
    by (simp add: write_cartesians_def Inr)
  have fs: "map fst items = [0..<length items]"
    using unwrap_items(2) [OF Inr assms] .
  show ?thesis
    unfolding Inr sum.case wc
    using unwrap_items(1) [OF Inr assms] unwrap_items_length [OF Inr assms]
      write_loop_files [of m base items, unfolded fs] unwrap_items_entries [OF Inr]
    by (intro conjI allI impI) blast+
qed

lemma upt_small: "[0..<1] = [0]" "[0..<2] = [0, 1]" "[0..<3] = [0, 1, 2]"
  by (simp_all add: upt_rec)

lemma mae_const:
  "mae (Tensor [1, 3] f) (Tensor [1, 3] g) =
     Inr (Float ((\<bar>f [0, 0] - g [0, 0]\<bar> + \<bar>f [0, 1] - g [0, 1]\<bar> + \<bar>f [0, 2] - g [0, 2]\<bar>) / 3))"
  using mae_same_shape [of "Tensor [1, 3] f" "[1, 3]" "Tensor [1, 3] g"]
  by (simp add: upt_small)

lemma get_vectors_m0:
  "get_vectors m0 [a, b, c] =
     Inr (Tensor [1, 3] (\<lambda>idx. 0), Tensor [1, 3] (\<lambda>idx. 1))"
  by (simp add: get_vectors_def m0_def np_expand_dims_def expand_dims_def normalize_axis_def
      np_squeeze0_def)

lemma write_structure_m0:
  "snd (write_structure m0 base (i, z, Tensor [1, 3] f1, Tensor [1, 3] f2, Tensor [1, 3] f3, Tensor [1, 3] f4)) = None"
  using mae_const get_vectors_m0
  by (simp add: write_structure_def np_savetxt_def rank_def np_max_def np_min_def elements_def
      upt_small Let_def)

lemma write_loop_single:
  "snd (write_structure m base it) = None \<Longrightarrow> snd (write_loop m base [it]) = None"
  by (cases "write_structure m base it") auto

lemma unwrap_d_val_items:
  "unwrap_data_lazily m0 cb0 d_val =
     Inr [(0, Tensor [1] (\<lambda>idx. 1), Tensor [1, 3] (\<lambda>idx. 1), Tensor [1, 3] (\<lambda>idx. 3),
           Tensor [1, 3] (\<lambda>idx. 0), Tensor [1, 3] (\<lambda>idx. 0))]"
  by (simp add: unwrap_data_lazily_def cb0_def d_val_def m0_def slice_to_def iter_array_def
      upt_small)

lemma write_d_val:
  "snd (write_cartesians m0 cb0 d_val base) = None"
  unfolding write_cartesians_def unwrap_d_val_items sum.case
  by (rule write_loop_single) (rule write_structure_m0)

lemma midpoint_loss_const:
  "midpoint_loss (Tensor [2, 1, 3] (\<lambda>idx. a)) (Tensor [2, 1, 3] (\<lambda>idx. b))
     (Tensor [2, 1, 3] (\<lambda>idx. c)) = Inr (Float \<bar>(a + b) / 2 - c\<bar>)"
  using midpoint_loss_same_shape [of "Tensor [2, 1, 3] (\<lambda>idx. a)" "[2, 1, 3]"
      "Tensor [2, 1, 3] (\<lambda>idx. b)" "Tensor [2, 1, 3] (\<lambda>idx. c)"]
  by (simp add: upt_small)

theorem write_cartesians_files_witness:
  "0 \<le> max_structures cb0 \<and>
   snd (write_cartesians m0 cb0 d_val [''out'']) = None \<and>
   written_files (fst (write_cartesians m0 cb0 d_val [''out''])) =
     [[''out'', ''vectors'', ''0_vectors.txt''], [''out'', ''true'', ''0_true.xyz''],
      [''out'', ''predicted'', ''0_pred.xyz''], [''out'', ''midpoints'', ''0_midpoint.xyz''],
      [''out'', ''reactants'', ''0_reactant.xyz''], [''out'', ''products'', ''0_product.xyz'']]"
proof -
  have ms: "0 \<le> max_structures cb0" by (simp add: cb0_def)
  have ok: "snd (write_cartesians m0 cb0 d_val [''out'']) = None" by (rule write_d_val)
  have s0: "str_nat 0 = ''0''" by (simp add: str_nat.simps [of 0])
  from write_cartesians_files [OF ms, of m0 "Tensor [2, 1] (\<lambda>idx. 1)"
      "Tensor [2, 1, 3] (\<lambda>idx. 1)" "Tensor [2, 1, 3] (\<lambda>idx. 3)" "Tensor [2, 1, 3] (\<lambda>idx. 0)"
      "[''out'']"] ok
  have "written_files (fst (write_cartesians m0 cb0 d_val [''out''])) =
      concat (map (structure_files [''out'']) [0..<1])"
    unfolding d_val_def [symmetric] unwrap_d_val_items sum.case by simp
  then show ?thesis
    using ms ok by (simp add: structure_files_def s0)
qed

lemma unwrap_negative:
  "unwrap_data_lazily m0 cb_negative d_val = Inr first_structure"
  by (simp add: unwrap_data_lazily_def cb_negative_def cb0_def d_val_def m0_def slice_to_def
      iter_array_def upt_small first_structure_def)

lemma unwrap_deep:
  "unwrap_data_lazily m_deep cb0 d_val = Inr first_structure"
  by (simp add: unwrap_data_lazily_def cb0_def d_val_def m_deep_def slice_to_def
      iter_array_def upt_small first_structure_def)

lemma str_nat_0: "str_nat 0 = ''0''"
  by (simp add: str_nat.simps [of 0])

lemma write_negative:
  "written_files (fst (write_cartesians m0 cb_negative d_val [''out''])) =
     structure_files [''out''] 0"
proof -
  have n: "snd (write_loop m0 [''out''] first_structure) = None"
    unfolding first_structure_def by (rule write_loop_single) (rule write_structure_m0)
  have "written_files (fst (write_loop m0 [''out''] first_structure)) =
      concat (map (structure_files [''out'']) (map fst first_structure))"
    using write_loop_files [of m0 "[''out'']" first_structure] n by blast
  then show ?thesis
    by (simp add: write_cartesians_def unwrap_negative) (simp add: first_structure_def)
qed

lemma get_vectors_deep:
  "get_vectors m_deep [a, b, c] =
     Inr (Tensor [1, 3] (\<lambda>idx. 0), Tensor [1, 1, 3] (\<lambda>idx. 1))"
  by (simp add: get_vectors_def m_deep_def np_expand_dims_def expand_dims_def normalize_axis_def
      np_squeeze0_def)

lemma write_deep:
  "write_cartesians m_deep cb0 d_val [''out''] =
     ([MakeDirs [''out'', ''vectors''], OpenFile [''out'', ''vectors'', ''0_vectors.txt'']],
      Some ValueError)"
  using get_vectors_deep
  by (simp add: write_cartesians_def unwrap_deep first_structure_def write_structure_def
      np_savetxt_def rank_def str_nat_0)

text \<open>
  With \<open>max_structures = -1\<close> the slices \<^verbatim>\<open>a[:-1]\<close> keep all entries but the last: of two
  structures one is exported, which is more than \<open>max_structures\<close>. And with
  \<open>max_structures = 1\<close> and a model whose vectors have three axes, \<^verbatim>\<open>np.savetxt\<close> raises
  for the first structure, so that no file of it is written.
\<close>

theorem write_cartesians_files_counterexample:
  "max_structures cb_negative = - 1 \<and>
   unwrap_data_lazily m0 cb_negative d_val = Inr first_structure \<and>
   length first_structure = 1 \<and>
   \<not> int (length first_structure) \<le> max_structures cb_negative \<and>
   written_files (fst (write_cartesians m0 cb_negative d_val [''out''])) =
     [[''out'', ''vectors'', ''0_vectors.txt''], [''out'', ''true'', ''0_true.xyz''],
      [''out'', ''predicted'', ''0_pred.xyz''], [''out'', ''midpoints'', ''0_midpoint.xyz''],
      [''out'', ''reactants'', ''0_reactant.xyz''], [''out'', ''products'', ''0_product.xyz'']] \<and>
   max_structures cb0 = 1 \<and>
   unwrap_data_lazily m_deep cb0 d_val = Inr first_structure \<and>
   write_cartesians m_deep cb0 d_val [''out''] =
     ([MakeDirs [''out'', ''vectors''], OpenFile [''out'', ''vectors'', ''0_vectors.txt'']],
      Some ValueError) \<and>
   written_files (fst (write_cartesians m_deep cb0 d_val [''out''])) = []"
  using unwrap_negative unwrap_deep write_negative write_deep
  by (simp add: cb_negative_def cb0_def first_structure_def structure_files_def str_nat_0)

theorem on_epoch_end_writes_witness:
  "validation cb0 = Some d_val \<and> write_rate cb0 \<noteq> 0 \<and> (200::int) mod write_rate cb0 = 0 \<and>
   hd (fst (on_epoch_end m0 cb0 200)) = SummaryScalar ''val_midpoint_loss'' (Float 2) 200 \<and>
   fst (on_epoch_end m0 cb0 150) = [] \<and>
   on_epoch_end m0 (cb0\<lparr>validation := None\<rparr>) 200 = ([], None)"
proof -
  note th = on_epoch_end_writes [of cb0 m0 200]
  have v: "validation cb0 = Some ((Tensor [2, 1] (\<lambda>idx. 1), Tensor [2, 1, 3] (\<lambda>idx. 1),
      Tensor [2, 1, 3] (\<lambda>idx. 3)), Tensor [2, 1, 3] (\<lambda>idx. 0))"
    by (simp add: cb0_def d_val_def)
  have w: "write_rate cb0 \<noteq> 0" "(200::int) mod write_rate cb0 = 0"
    by (simp_all add: cb0_def)
  have l: "midpoint_loss (Tensor [2, 1, 3] (\<lambda>idx. 1)) (Tensor [2, 1, 3] (\<lambda>idx. 3))
      (Tensor [2, 1, 3] (\<lambda>idx. 0)) = Inr (Float 2)"
    using midpoint_loss_const [of 1 3 0] by simp
  have "on_epoch_end m0 cb0 200 =
        (case midpoint_loss (Tensor [2, 1, 3] (\<lambda>idx. 1)) (Tensor [2, 1, 3] (\<lambda>idx. 3))
                (Tensor [2, 1, 3] (\<lambda>idx. 0)) of
           Inl e \<Rightarrow> ([], Some e)
         | Inr loss \<Rightarrow>
             (SummaryScalar ''val_midpoint_loss'' loss 200 #
                fst (write_cartesians m0 cb0 ((Tensor [2, 1] (\<lambda>idx. 1), Tensor [2, 1, 3] (\<lambda>idx. 1),
      Tensor [2, 1, 3] (\<lambda>idx. 3)), Tensor [2, 1, 3] (\<lambda>idx. 0))
                       (path cb0 @ [''epoch_'' @ str_int 200])),
              snd (write_cartesians m0 cb0 ((Tensor [2, 1] (\<lambda>idx. 1), Tensor [2, 1, 3] (\<lambda>idx. 1),
      Tensor [2, 1, 3] (\<lambda>idx. 3)), Tensor [2, 1, 3] (\<lambda>idx. 0))
                     (path cb0 @ [''epoch_'' @ str_int 200]))))"
    by (rule th [THEN conjunct2, THEN conjunct2, rule_format, OF v w, THEN conjunct1])
  then have a: "hd (fst (on_epoch_end m0 cb0 200)) = SummaryScalar ''val_midpoint_loss'' (Float 2) 200"
    by (simp only: l sum.case fst_conv list.sel)
  have "\<not> ((150::int) mod write_rate cb0 = 0)"
    by (simp add: cb0_def)
  with on_epoch_end_writes [of cb0 m0 150] have b: "fst (on_epoch_end m0 cb0 150) = []"
    by blast
  have c: "on_epoch_end m0 (cb0\<lparr>validation := None\<rparr>) 200 = ([], None)"
    using on_epoch_end_writes [of "cb0\<lparr>validation := None\<rparr>" m0 200] by simp
  show ?thesis
    using a b c w by (simp add: cb0_def)
qed

theorem on_train_end_uses_validation_witness:
  "test (cb0\<lparr>validation := None\<rparr>) = Some d_test \<and>
   on_train_end m0 (cb0\<lparr>validation := None\<rparr>) = ([], Some TypeError) \<and>
   test cb0 = Some d_test \<and> validation cb0 = Some d_val \<and>
   hd (fst (on_train_end m0 cb0)) = Print ''midpoint test loss: '' (Float 2) \<and>
   midpoint_loss (Tensor [2, 1, 3] (\<lambda>idx. 0)) (Tensor [2, 1, 3] (\<lambda>idx. 0))
      (Tensor [2, 1, 3] (\<lambda>idx. 0)) = Inr (Float 0)"
proof -
  have t: "test (cb0\<lparr>validation := None\<rparr>) = Some d_test" "test cb0 = Some d_test"
    by (simp_all add: cb0_def)
  have v: "validation cb0 = Some ((Tensor [2, 1] (\<lambda>idx. 1), Tensor [2, 1, 3] (\<lambda>idx. 1),
      Tensor [2, 1, 3] (\<lambda>idx. 3)), Tensor [2, 1, 3] (\<lambda>idx. 0))"
    by (simp add: cb0_def d_val_def)
  have l: "midpoint_loss (Tensor [2, 1, 3] (\<lambda>idx. 1)) (Tensor [2, 1, 3] (\<lambda>idx. 3))
      (Tensor [2, 1, 3] (\<lambda>idx. 0)) = Inr (Float 2)"
    using midpoint_loss_const [of 1 3 0] by simp
  have l0: "midpoint_loss (Tensor [2, 1, 3] (\<lambda>idx. 0)) (Tensor [2, 1, 3] (\<lambda>idx. 0))
      (Tensor [2, 1, 3] (\<lambda>idx. 0)) = Inr (Float 0)"
    using midpoint_loss_const [of 0 0 0] by simp
  have a: "on_train_end m0 (cb0\<lparr>validation := None\<rparr>) = ([], Some TypeError)"
    using on_train_end_uses_validation [OF t(1), of m0] by simp
  have "on_train_end m0 cb0 =
        (case midpoint_loss (Tensor [2, 1, 3] (\<lambda>idx. 1)) (Tensor [2, 1, 3] (\<lambda>idx. 3))
                (Tensor [2, 1, 3] (\<lambda>idx. 0)) of
           Inl e \<Rightarrow> ([], Some e)
         | Inr loss \<Rightarrow>
             (Print ''midpoint test loss: '' loss #
                fst (write_cartesians m0 cb0 d_test (path cb0 @ [''test''])),
              snd (write_cartesians m0 cb0 d_test (path cb0 @ [''test'']))))"
    by (rule on_train_end_uses_validation [OF t(2), of m0, THEN conjunct2, rule_format, OF v])
  then have b: "hd (fst (on_train_end m0 cb0)) = Print ''midpoint test loss: '' (Float 2)"
    by (simp only: l sum.case fst_conv list.sel)
  show ?thesis
    using t a b l0 by (simp add: cb0_def)
qed

section \<open>Properties of the experiment scripts\<close>




end
